theory Spec2Isabelle
  imports Main
begin

section \<open>The origin-fetch caching layer of btcfi-api (github.ts)\<close>

text \<open>
  The module fetches a manifest or a daily data file from a remote origin, keeps the
  bytes in a bounded cache with a time to live, and answers later requests from the
  cache, by revalidation, or from a stale copy when the origin reports an error.

  Conventions of the embedding:
  \<^item> a JavaScript string and a \<^verbatim>\<open>Buffer\<close> are both a \<^typ>\<open>string\<close>: the body text
    that \<^verbatim>\<open>response.body.text()\<close> yields and the buffer made from it are the same
    list of characters;
  \<^item> an optional field (\<^verbatim>\<open>etag?: string\<close>) is an \<^typ>\<open>'a option\<close>, with
    \<^term>\<open>None\<close> for \<^verbatim>\<open>undefined\<close> and \<^verbatim>\<open>null\<close>;
  \<^item> status codes, seconds and milliseconds are integers;
  \<^item> a thrown exception is a value \<open>Inl e\<close> of the result type;
  \<^item> the module-level bindings (the memoised configuration, the two TTL constants and
    the cache) are the fields of one state record that every operation takes and
    returns, together with a log of the requests sent to the origin;
  \<^item> what lies outside the module (the process environment, the origin, the clock and
    the built-in \<^verbatim>\<open>JSON.parse\<close>) is a record of inputs to each call.
\<close>

subsection \<open>Records of the module\<close>

record CacheEntry =
  body :: string
  etag :: "string option"
  lastModified :: "string option"
  contentType :: "string option"
  statusCode :: "int option"

record FetchOptions =
  ttlSeconds :: int
  source :: string
  path :: string

record GithubFetchMetrics =
  cacheHit :: bool
  upstreamStatus :: "int option"
  servedStale :: bool
  source :: string

record FetchResult =
  buffer :: string
  etag :: "string option"
  lastModified :: "string option"
  contentType :: "string option"
  metrics :: GithubFetchMetrics

text \<open>
  The exceptions that leave the module. \<open>Error\<close> is the plain \<^verbatim>\<open>Error\<close> class, which
  \<^verbatim>\<open>requiredEnv\<close> and \<^verbatim>\<open>parseJson\<close> throw with a message; \<open>TypeError\<close> is what the
  language raises on a property read of \<^verbatim>\<open>null\<close>; \<open>TransportError\<close> stands for
  whatever exception the HTTP client's \<^verbatim>\<open>request\<close> rejects with when no response
  arrives. The two classes the module exports are \<open>UpstreamNotFoundError\<close> and
  \<open>UpstreamUnavailableError\<close>, the latter with its numeric \<^verbatim>\<open>statusCode\<close>.
\<close>

datatype error =
    Error string
  | TypeError string
  | TransportError string
  | UpstreamNotFoundError string
  | UpstreamUnavailableError string int

subsection \<open>The world outside the module\<close>

text \<open>
  A response header is a string, or a list of strings when the header is repeated. The
  HTTP client either resolves with a status code, the headers (names in lower case)
  and the body text, or rejects: no response arrives. (A failure while the body of a
  response is read is not modelled.)
\<close>

datatype header_value = Single string | Multiple "string list"

datatype reply =
    Response int "(string \<times> header_value) list" string
  | TransportFailure string

text \<open>The values that \<^verbatim>\<open>JSON.parse\<close> produces; a number is kept in its decimal
  notation, an object as the list of its properties.\<close>

datatype json =
    JNull
  | JBool bool
  | JNumber string
  | JString string
  | JArray "json list"
  | JObject "(string \<times> json) list"

text \<open>
  \<open>env\<close> is \<^verbatim>\<open>process.env\<close>; \<open>origin\<close> gives, for a URL and the request headers, what
  a GET returns; \<open>JSON_parse\<close> is the built-in parser, \<open>Inl\<close> carrying the message of
  the \<^verbatim>\<open>SyntaxError\<close> it throws; \<open>now\<close> is the clock (in milliseconds) when the cache
  is consulted and \<open>replyAt\<close> the clock when the awaited response has arrived and the
  cache is written.
\<close>

record world =
  env :: "string \<Rightarrow> string option"
  origin :: "string \<Rightarrow> (string \<times> string) list \<Rightarrow> reply"
  JSON_parse :: "string \<Rightarrow> string + json"
  now :: int
  replyAt :: int

subsection \<open>The cache store\<close>

text \<open>
  Modelled from the spec: the Cache Store of section 4.1, which the module takes from
  the package \<^verbatim>\<open>lru-cache\<close>; the package is not part of the repository. The store is a
  list of keyed slots, most recently used first, bounded by \<open>max_entries\<close> (the option
  \<^verbatim>\<open>max\<close>). Each slot holds the entry, the time it was set and its TTL in milliseconds.
  Expiry is judged at read time only, from the slot's start, its TTL and the clock,
  whose readings (milliseconds since the process started) are positive.

  Three points follow the package where the spec is silent:
  \<^item> a slot set with TTL \<open>0\<close> never expires, and its remaining TTL is \<^verbatim>\<open>Infinity\<close>;
  \<^item> a slot is stale when its age exceeds its TTL, so at an age equal to the TTL it is
    not stale yet and its remaining TTL is \<open>0\<close>;
  \<^item> a \<^verbatim>\<open>get\<close> that allows stale values returns the value of a stale slot and, unless
    the option \<^verbatim>\<open>noDeleteOnStaleGet\<close> is set, removes the slot. The module does not set
    the option; the store keeps it as a field, and every theorem below holds for both
    of its values.
\<close>

record slot =
  entry :: CacheEntry
  start :: int
  ttl :: int

record LRUCache =
  max_entries :: nat
  noDeleteOnStaleGet :: bool
  slots :: "(string \<times> slot) list"

datatype remaining = Ms int | Infinity

definition positive :: "remaining \<Rightarrow> bool" where
  "positive r = (case r of Ms n \<Rightarrow> 0 < n | Infinity \<Rightarrow> True)"

definition isStale :: "slot \<Rightarrow> int \<Rightarrow> bool" where
  "isStale sl t = (ttl sl \<noteq> 0 \<and> ttl sl < t - start sl)"

definition delete_key :: "string \<Rightarrow> (string \<times> slot) list \<Rightarrow> (string \<times> slot) list" where
  "delete_key k xs = filter (\<lambda>p. fst p \<noteq> k) xs"

text \<open>\<^verbatim>\<open>cache.get(key, { allowStale: true })\<close> at clock \<open>t\<close>: the value and the store after
  the read. A read of a live slot makes it the most recently used.\<close>

definition cache_get :: "LRUCache \<Rightarrow> string \<Rightarrow> int \<Rightarrow> CacheEntry option \<times> LRUCache" where
  "cache_get c k t =
     (case map_of (slots c) k of
        None \<Rightarrow> (None, c)
      | Some sl \<Rightarrow>
          if isStale sl t
          then (Some (entry sl),
                if noDeleteOnStaleGet c then c else c\<lparr>slots := delete_key k (slots c)\<rparr>)
          else (Some (entry sl), c\<lparr>slots := (k, sl) # delete_key k (slots c)\<rparr>))"

text \<open>\<^verbatim>\<open>cache.getRemainingTTL(key)\<close> at clock \<open>t\<close>: \<open>0\<close> for an absent key.\<close>

definition getRemainingTTL :: "LRUCache \<Rightarrow> string \<Rightarrow> int \<Rightarrow> remaining" where
  "getRemainingTTL c k t =
     (case map_of (slots c) k of
        None \<Rightarrow> Ms 0
      | Some sl \<Rightarrow> if ttl sl = 0 then Infinity else Ms (ttl sl - (t - start sl)))"

text \<open>\<^verbatim>\<open>cache.set(key, value, { ttl })\<close> at clock \<open>t\<close>. An existing key is updated in
  place; a new key evicts the least recently used slot when the store is full.\<close>

definition cache_set :: "LRUCache \<Rightarrow> string \<Rightarrow> CacheEntry \<Rightarrow> int \<Rightarrow> int \<Rightarrow> LRUCache" where
  "cache_set c k v ms t =
     (let sl = \<lparr>entry = v, start = t, ttl = ms\<rparr>
      in case map_of (slots c) k of
           Some old \<Rightarrow> c\<lparr>slots := (k, sl) # delete_key k (slots c)\<rparr>
         | None \<Rightarrow>
             c\<lparr>slots := (k, sl) #
                 (if max_entries c \<le> length (slots c) then butlast (slots c) else slots c)\<rparr>)"

definition cache_clear :: "LRUCache \<Rightarrow> LRUCache" where
  "cache_clear c = c\<lparr>slots := []\<rparr>"

subsection \<open>Module state and configuration\<close>

record state =
  cachedOwner :: "string option"
  cachedRepo :: "string option"
  cachedBranch :: "string option"
  manifestTtlSeconds :: int
  dataTtlSeconds :: int
  cache :: LRUCache
  requests :: "(string \<times> (string \<times> string) list) list"

definition DEFAULT_RAW_BASE :: string where
  "DEFAULT_RAW_BASE = ''https://raw.githubusercontent.com''"

text \<open>\<^verbatim>\<open>requiredEnv\<close>: an unset or empty variable throws.\<close>

definition requiredEnv :: "world \<Rightarrow> string \<Rightarrow> error + string" where
  "requiredEnv w key =
     (case env w key of
        None \<Rightarrow> Inl (Error (''Missing required environment variable: '' @ key))
      | Some v \<Rightarrow>
          if v = [] then Inl (Error (''Missing required environment variable: '' @ key))
          else Inr v)"

text \<open>\<^verbatim>\<open>getOwner\<close>, \<^verbatim>\<open>getRepo\<close>, \<^verbatim>\<open>getBranch\<close>: the memoised value when it is truthy
  (neither \<^verbatim>\<open>null\<close> nor empty), else the environment, whose value is memoised.\<close>

definition getOwner :: "world \<Rightarrow> state \<Rightarrow> (error + string) \<times> state" where
  "getOwner w s =
     (let load = (case requiredEnv w ''GITHUB_OWNER'' of
                    Inl e \<Rightarrow> (Inl e, s)
                  | Inr v \<Rightarrow> (Inr v, s\<lparr>cachedOwner := Some v\<rparr>))
      in case cachedOwner s of
           None \<Rightarrow> load
         | Some v \<Rightarrow> if v = [] then load else (Inr v, s))"

definition getRepo :: "world \<Rightarrow> state \<Rightarrow> (error + string) \<times> state" where
  "getRepo w s =
     (let load = (case requiredEnv w ''GITHUB_REPO'' of
                    Inl e \<Rightarrow> (Inl e, s)
                  | Inr v \<Rightarrow> (Inr v, s\<lparr>cachedRepo := Some v\<rparr>))
      in case cachedRepo s of
           None \<Rightarrow> load
         | Some v \<Rightarrow> if v = [] then load else (Inr v, s))"

definition getBranch :: "world \<Rightarrow> state \<Rightarrow> string \<times> state" where
  "getBranch w s =
     (let v' = (case env w ''GITHUB_BRANCH'' of None \<Rightarrow> ''main'' | Some b \<Rightarrow> b);
          load = (v', s\<lparr>cachedBranch := Some v'\<rparr>)
      in case cachedBranch s of
           None \<Rightarrow> load
         | Some v \<Rightarrow> if v = [] then load else (v, s))"

definition cacheKey :: "string \<Rightarrow> string \<Rightarrow> string" where
  "cacheKey src p = src @ '':'' @ p"

definition firstHeader :: "header_value option \<Rightarrow> string option" where
  "firstHeader v =
     (case v of
        None \<Rightarrow> None
      | Some (Single x) \<Rightarrow> Some x
      | Some (Multiple xs) \<Rightarrow> (case xs of [] \<Rightarrow> None | x # rest \<Rightarrow> Some x))"

subsection \<open>fetchResource\<close>

text \<open>The result built from a cached entry (the object literal that the source writes
  out in the fresh, the revalidated and the two stale branches).\<close>

definition fromCached :: "FetchOptions \<Rightarrow> CacheEntry \<Rightarrow> int \<Rightarrow> bool \<Rightarrow> FetchResult" where
  "fromCached opts cached status stale =
     \<lparr>buffer = body cached,
      etag = CacheEntry.etag cached,
      lastModified = CacheEntry.lastModified cached,
      contentType = CacheEntry.contentType cached,
      metrics = \<lparr>cacheHit = True, upstreamStatus = Some status, servedStale = stale,
                 source = FetchOptions.source opts\<rparr>\<rparr>"

text \<open>The request headers: \<^verbatim>\<open>If-None-Match\<close> when the cached entry has a truthy
  entity tag.\<close>

definition conditionalHeaders :: "CacheEntry option \<Rightarrow> (string \<times> string) list" where
  "conditionalHeaders cached =
     (case cached of
        None \<Rightarrow> []
      | Some e \<Rightarrow>
          (case CacheEntry.etag e of
             None \<Rightarrow> []
           | Some t \<Rightarrow> if t = [] then [] else [(''If-None-Match'', t)]))"

text \<open>The base URL: \<^verbatim>\<open>RAW_BASE\<close> or the default, without one trailing slash.\<close>

definition rawBase :: "world \<Rightarrow> string" where
  "rawBase w =
     (let b = (case env w ''RAW_BASE'' of None \<Rightarrow> DEFAULT_RAW_BASE | Some v \<Rightarrow> v)
      in if b \<noteq> [] \<and> last b = CHR ''/'' then butlast b else b)"

definition resourceUrl :: "string \<Rightarrow> string \<Rightarrow> string \<Rightarrow> string \<Rightarrow> string \<Rightarrow> string" where
  "resourceUrl base owner repo branch p =
     base @ ''/'' @ owner @ ''/'' @ repo @ ''/'' @ branch @ ''/'' @ p"

text \<open>What \<^verbatim>\<open>fetchResource\<close> does once the response has arrived (from the read of
  \<^verbatim>\<open>response.statusCode\<close> to the end of the function), at clock \<open>t\<close>.\<close>

definition onResponse ::
  "FetchOptions \<Rightarrow> string \<Rightarrow> CacheEntry option \<Rightarrow> int \<Rightarrow>
   int \<Rightarrow> (string \<times> header_value) list \<Rightarrow> string \<Rightarrow> state \<Rightarrow> (error + FetchResult) \<times> state" where
  "onResponse opts key cached t code hdrs text s =
     (case (code = 304, cached) of
        (True, Some e) \<Rightarrow>
          (Inr (fromCached opts e code False),
           s\<lparr>cache := cache_set (cache s) key (e\<lparr>statusCode := Some code\<rparr>)
                         (ttlSeconds opts * 1000) t\<rparr>)
      | _ \<Rightarrow>
          if code = 404 then
            (case cached of
               Some e \<Rightarrow> (Inr (fromCached opts e code True), s)
             | None \<Rightarrow>
                 (Inl (UpstreamNotFoundError (''Resource not found upstream: '' @ path opts)),
                  s))
          else if 400 \<le> code then
            (case cached of
               Some e \<Rightarrow> (Inr (fromCached opts e code True), s)
             | None \<Rightarrow>
                 (Inl (UpstreamUnavailableError
                         (''Upstream request failed for '' @ path opts) code),
                  s))
          else
            (let newEntry = \<lparr>body = text,
                              etag = firstHeader (map_of hdrs ''etag''),
                              lastModified = firstHeader (map_of hdrs ''last-modified''),
                              contentType = firstHeader (map_of hdrs ''content-type''),
                              statusCode = Some code\<rparr>
             in (Inr \<lparr>buffer = text,
                      etag = CacheEntry.etag newEntry,
                      lastModified = CacheEntry.lastModified newEntry,
                      contentType = CacheEntry.contentType newEntry,
                      metrics = \<lparr>cacheHit = False, upstreamStatus = Some code,
                                 servedStale = False, source = FetchOptions.source opts\<rparr>\<rparr>,
                 s\<lparr>cache := cache_set (cache s) key newEntry (ttlSeconds opts * 1000) t\<rparr>)))"

text \<open>What \<^verbatim>\<open>fetchResource\<close> does when the lookup gave no fresh entry: it builds the
  headers and the URL (reading the configuration, which may throw), sends the request,
  which is logged, and handles the outcome. A rejected request is not caught.\<close>

definition contactOrigin ::
  "world \<Rightarrow> FetchOptions \<Rightarrow> string \<Rightarrow> CacheEntry option \<Rightarrow> state \<Rightarrow> (error + FetchResult) \<times> state" where
  "contactOrigin w opts key cached s =
     (let headers = conditionalHeaders cached;
          base = rawBase w
      in case getOwner w s of
           (Inl e, s1) \<Rightarrow> (Inl e, s1)
         | (Inr owner, s1) \<Rightarrow>
             (case getRepo w s1 of
                (Inl e, s2) \<Rightarrow> (Inl e, s2)
              | (Inr repo, s2) \<Rightarrow>
                  (case getBranch w s2 of
                     (branch, s3) \<Rightarrow>
                       (let url = resourceUrl base owner repo branch (path opts);
                            s4 = s3\<lparr>requests := requests s3 @ [(url, headers)]\<rparr>
                        in case origin w url headers of
                             TransportFailure x \<Rightarrow> (Inl (TransportError x), s4)
                           | Response code hdrs text \<Rightarrow>
                               onResponse opts key cached (replyAt w) code hdrs text s4))))"

definition fetchResource :: "world \<Rightarrow> FetchOptions \<Rightarrow> state \<Rightarrow> (error + FetchResult) \<times> state" where
  "fetchResource w opts s =
     (let key = cacheKey (FetchOptions.source opts) (path opts)
      in case cache_get (cache s) key (now w) of
           (cached, c1) \<Rightarrow>
             (let remainingTtl = getRemainingTTL c1 key (now w);
                  isFresh = (cached \<noteq> None \<and> positive remainingTtl);
                  s1 = s\<lparr>cache := c1\<rparr>
              in case cached of
                   Some e \<Rightarrow>
                     if isFresh
                     then (Inr (fromCached opts e
                                  (case statusCode e of None \<Rightarrow> 200 | Some c \<Rightarrow> c) False),
                           s1)
                     else contactOrigin w opts key cached s1
                 | None \<Rightarrow> contactOrigin w opts key cached s1))"

subsection \<open>The dataset accessors\<close>

datatype Dataset = lending | borrowing

definition datasetName :: "Dataset \<Rightarrow> string" where
  "datasetName d = (case d of lending \<Rightarrow> ''lending'' | borrowing \<Rightarrow> ''borrowing'')"

text \<open>\<^verbatim>\<open>parseJson\<close>: the parsed value, cast to the expected type without any check of
  its shape; a syntax error is rethrown as a plain \<^verbatim>\<open>Error\<close> with a new message.\<close>

definition parseJson :: "world \<Rightarrow> string \<Rightarrow> string \<Rightarrow> error + json" where
  "parseJson w buf p =
     (case JSON_parse w buf of
        Inl msg \<Rightarrow> Inl (Error (''Failed to parse JSON from '' @ p @ '': '' @ msg))
      | Inr v \<Rightarrow> Inr v)"

text \<open>The property read \<^verbatim>\<open>manifest.updated_at\<close>: the property of an object,
  \<^verbatim>\<open>undefined\<close> on any other value, and a \<^verbatim>\<open>TypeError\<close> on \<^verbatim>\<open>null\<close>.\<close>

definition updated_at :: "json \<Rightarrow> error + json option" where
  "updated_at v =
     (case v of
        JNull \<Rightarrow> Inl (TypeError ''Cannot read properties of null'')
      | JObject ms \<Rightarrow> Inr (map_of ms ''updated_at'')
      | _ \<Rightarrow> Inr None)"

record ManifestResult =
  manifest :: json
  etag :: "string option"
  updatedAt :: "json option"
  metrics :: GithubFetchMetrics

record DailyResult =
  data :: json
  etag :: "string option"
  lastModified :: "string option"
  metrics :: GithubFetchMetrics

text \<open>The options with which the two accessors call \<^verbatim>\<open>fetchResource\<close>.\<close>

definition manifestPath :: "Dataset \<Rightarrow> string" where
  "manifestPath dataset = ''meta/'' @ datasetName dataset @ ''_manifest.json''"

definition manifestOptions :: "state \<Rightarrow> Dataset \<Rightarrow> FetchOptions" where
  "manifestOptions s dataset =
     \<lparr>ttlSeconds = manifestTtlSeconds s,
      source = ''manifest:'' @ datasetName dataset,
      path = manifestPath dataset\<rparr>"

definition dailyPath :: "Dataset \<Rightarrow> string \<Rightarrow> string" where
  "dailyPath dataset date = ''data/'' @ datasetName dataset @ ''/'' @ date @ ''.json''"

definition dailyOptions :: "state \<Rightarrow> Dataset \<Rightarrow> string \<Rightarrow> FetchOptions" where
  "dailyOptions s dataset date =
     \<lparr>ttlSeconds = dataTtlSeconds s,
      source = datasetName dataset @ '':'' @ date,
      path = dailyPath dataset date\<rparr>"

definition getManifest :: "world \<Rightarrow> Dataset \<Rightarrow> state \<Rightarrow> (error + ManifestResult) \<times> state" where
  "getManifest w dataset s =
     (let p = manifestPath dataset
      in case fetchResource w (manifestOptions s dataset) s of
           (Inl e, s') \<Rightarrow> (Inl e, s')
         | (Inr result, s') \<Rightarrow>
             (case parseJson w (buffer result) p of
                Inl e \<Rightarrow> (Inl e, s')
              | Inr m \<Rightarrow>
                  (case updated_at m of
                     Inl e \<Rightarrow> (Inl e, s')
                   | Inr u \<Rightarrow>
                       (Inr \<lparr>manifest = m,
                             etag = FetchResult.etag result,
                             updatedAt = u,
                             metrics = FetchResult.metrics result\<rparr>,
                        s'))))"

definition getDailyDataset ::
  "world \<Rightarrow> Dataset \<Rightarrow> string \<Rightarrow> state \<Rightarrow> (error + DailyResult) \<times> state" where
  "getDailyDataset w dataset date s =
     (let p = dailyPath dataset date
      in case fetchResource w (dailyOptions s dataset date) s of
           (Inl e, s') \<Rightarrow> (Inl e, s')
         | (Inr result, s') \<Rightarrow>
             (case parseJson w (buffer result) p of
                Inl e \<Rightarrow> (Inl e, s')
              | Inr d \<Rightarrow>
                  (Inr \<lparr>data = d,
                        etag = FetchResult.etag result,
                        lastModified = FetchResult.lastModified result,
                        metrics = FetchResult.metrics result\<rparr>,
                   s')))"

definition invalidateCache :: "state \<Rightarrow> state" where
  "invalidateCache s = s\<lparr>cache := cache_clear (cache s)\<rparr>"

definition resetGithubConfig :: "state \<Rightarrow> state" where
  "resetGithubConfig s = s\<lparr>cachedOwner := None, cachedRepo := None, cachedBranch := None\<rparr>"

text \<open>The values that the test \<^verbatim>\<open>!value\<close> of the configuration readers takes for
  absent: \<^verbatim>\<open>undefined\<close>, \<^verbatim>\<open>null\<close> and the empty string.\<close>

definition falsy :: "string option \<Rightarrow> bool" where
  "falsy v = (case v of None \<Rightarrow> True | Some x \<Rightarrow> x = [])"

subsection \<open>Example inputs\<close>

text \<open>
  The setting of the module's test file: owner and repository set in the environment,
  no branch, TTLs of one second, at most five entries. \<open>testWorld rep t\<close> is a world
  whose origin answers every request with \<open>rep\<close>, at clock \<open>t\<close>; the response is there
  20 ms later. \<open>testParse\<close> gives the value of \<^verbatim>\<open>JSON.parse\<close> on the two JSON texts
  that the examples use (an empty object and a one-element array) and a syntax error
  otherwise; the examples apply it to these two texts and to texts that are not JSON.
  \<open>testSlots\<close> is a store holding one day of the borrowing dataset, set at clock \<open>120\<close>
  with a TTL of 1000 ms.
\<close>

definition testParse :: "string \<Rightarrow> string + json" where
  "testParse t =
     (if t = ''{}'' then Inr (JObject [])
      else if t = ''[1]'' then Inr (JArray [JNumber ''1''])
      else Inl ''Unexpected token'')"

definition testEnv :: "string \<Rightarrow> string option" where
  "testEnv = [''GITHUB_OWNER'' \<mapsto> ''test-owner'', ''GITHUB_REPO'' \<mapsto> ''test-repo'']"

definition testWorld :: "reply \<Rightarrow> int \<Rightarrow> world" where
  "testWorld rep t =
     \<lparr>env = testEnv, origin = (\<lambda>url headers. rep), JSON_parse = testParse,
      now = t, replyAt = t + 20\<rparr>"

definition testOptions :: FetchOptions where
  "testOptions = \<lparr>ttlSeconds = 1, source = ''borrowing:2025-09-29'',
                  path = ''data/borrowing/2025-09-29.json''\<rparr>"

definition testKey :: string where
  "testKey = ''borrowing:2025-09-29:data/borrowing/2025-09-29.json''"

definition testUrl :: string where
  "testUrl = ''https://raw.githubusercontent.com/test-owner/test-repo/main/data/borrowing/2025-09-29.json''"

definition testEntry :: CacheEntry where
  "testEntry = \<lparr>body = ''[1]'', etag = Some ''etag-1'', lastModified = None,
                contentType = Some ''application/json'', statusCode = Some 200\<rparr>"

definition testSlot :: slot where
  "testSlot = \<lparr>entry = testEntry, start = 120, ttl = 1000\<rparr>"

definition testSlots :: "(string \<times> slot) list" where
  "testSlots = [(testKey, testSlot)]"

definition testState :: "bool \<Rightarrow> (string \<times> slot) list \<Rightarrow> state" where
  "testState keep xs =
     \<lparr>cachedOwner = None, cachedRepo = None, cachedBranch = None,
      manifestTtlSeconds = 1, dataTtlSeconds = 1,
      cache = \<lparr>max_entries = 5, noDeleteOnStaleGet = keep, slots = xs\<rparr>,
      requests = []\<rparr>"

section \<open>Properties\<close>

text \<open>
  A call \<open>fetchResource w opts s = (r, s')\<close> has contacted the origin exactly when the
  request log of \<open>s'\<close> is that of \<open>s\<close> followed by one request \<open>(u, h)\<close>, its URL and
  headers; what the origin answered is then \<open>origin w u h\<close>. The statements below that
  speak of the origin's answer to a fetch are written with these two hypotheses. The
  entry that the cache holds for a key is \<open>map_of (slots (cache s)) key\<close>, whether or not
  its TTL has elapsed.
\<close>

subsection \<open>Auxiliary facts about the store and the phases of a fetch\<close>

lemma map_of_delete_key:
  "map_of (delete_key k xs) k' = (if k' = k then None else map_of xs k')"
  by (induction xs) (auto simp: delete_key_def)


lemma getOwner_frame:
  "getOwner w s = (r, s') \<Longrightarrow> cache s' = cache s \<and> requests s' = requests s"
  by (auto simp: getOwner_def Let_def split: option.splits sum.splits if_splits)

lemma getRepo_frame:
  "getRepo w s = (r, s') \<Longrightarrow> cache s' = cache s \<and> requests s' = requests s"
  by (auto simp: getRepo_def Let_def split: option.splits sum.splits if_splits)

lemma getBranch_frame:
  "getBranch w s = (r, s') \<Longrightarrow> cache s' = cache s \<and> requests s' = requests s"
  by (auto simp: getBranch_def Let_def split: option.splits sum.splits if_splits)

lemma onResponse_requests:
  "onResponse opts key cached t code hdrs text s = (r, s') \<Longrightarrow> requests s' = requests s"
  by (auto simp: onResponse_def Let_def split: option.splits if_splits bool.splits)

lemma contactOrigin_cases:
  assumes "contactOrigin w opts key cached s = (r, s')"
  shows "(requests s' = requests s \<and> cache s' = cache s \<and> (\<exists>m. r = Inl (Error m)))
       \<or> (\<exists>u s4. requests s4 = requests s @ [(u, conditionalHeaders cached)]
              \<and> cache s4 = cache s
              \<and> (case origin w u (conditionalHeaders cached) of
                    TransportFailure x \<Rightarrow> r = Inl (TransportError x) \<and> s' = s4
                  | Response code hdrs text \<Rightarrow>
                      onResponse opts key cached (replyAt w) code hdrs text s4 = (r, s')))"
proof -
  obtain ro s1 where o: "getOwner w s = (ro, s1)" by (cases "getOwner w s")
  obtain rr s2 where r: "getRepo w s1 = (rr, s2)" by (cases "getRepo w s1")
  obtain b s3 where b: "getBranch w s2 = (b, s3)" by (cases "getBranch w s2")
  note f1 = getOwner_frame [OF o] and f2 = getRepo_frame [OF r] and f3 = getBranch_frame [OF b]
  show ?thesis
  proof (cases ro)
    case (Inl e)
    with o obtain m where "e = Error m"
      by (auto simp: getOwner_def requiredEnv_def Let_def split: option.splits sum.splits if_splits)
    with assms o Inl f1 show ?thesis by (auto simp: contactOrigin_def Let_def)
  next
    case owner: (Inr owner)
    show ?thesis
    proof (cases rr)
      case (Inl e)
      with r obtain m where "e = Error m"
        by (auto simp: getRepo_def requiredEnv_def Let_def split: option.splits sum.splits if_splits)
      with assms o r owner Inl f1 f2 show ?thesis by (auto simp: contactOrigin_def Let_def)
    next
      case repo: (Inr repo)
      let ?u = "resourceUrl (rawBase w) owner repo b (path opts)"
      let ?h = "conditionalHeaders cached"
      let ?s4 = "s3\<lparr>requests := requests s3 @ [(?u, ?h)]\<rparr>"
      have "requests ?s4 = requests s @ [(?u, ?h)]" "cache ?s4 = cache s"
        using f1 f2 f3 by simp_all
      moreover have "case origin w ?u ?h of
                    TransportFailure x \<Rightarrow> r = Inl (TransportError x) \<and> s' = ?s4
                  | Response code hdrs text \<Rightarrow>
                      onResponse opts key cached (replyAt w) code hdrs text ?s4 = (r, s')"
        using assms o r b owner repo
        by (auto simp: contactOrigin_def Let_def split: reply.splits)
      ultimately show ?thesis by blast
    qed
  qed
qed


lemma cache_get_fst: "fst (cache_get c k t) = map_option entry (map_of (slots c) k)"
  by (simp add: cache_get_def split: option.splits)

lemma cache_get_absent: "map_of (slots c) k = None \<Longrightarrow> cache_get c k t = (None, c)"
  by (simp add: cache_get_def)


lemma remaining_after_get:
  "(fst (cache_get c k t) \<noteq> None \<and> positive (getRemainingTTL (snd (cache_get c k t)) k t))
   = positive (getRemainingTTL c k t)"
  by (auto simp: cache_get_def getRemainingTTL_def positive_def isStale_def map_of_delete_key
           split: option.splits if_splits)

lemma positive_present:
  "positive (getRemainingTTL c k t) \<Longrightarrow> \<exists>sl. map_of (slots c) k = Some sl \<and> \<not> isStale sl t"
  by (auto simp: getRemainingTTL_def positive_def isStale_def split: option.splits if_splits)

lemma fetchResource_fresh:
  assumes "positive (getRemainingTTL (cache s) (cacheKey (FetchOptions.source opts) (path opts)) (now w))"
      and "map_of (slots (cache s)) (cacheKey (FetchOptions.source opts) (path opts)) = Some sl"
  shows "fetchResource w opts s =
           (Inr (fromCached opts (entry sl)
                   (case statusCode (entry sl) of None \<Rightarrow> 200 | Some c \<Rightarrow> c) False),
            s\<lparr>cache := snd (cache_get (cache s) (cacheKey (FetchOptions.source opts) (path opts)) (now w))\<rparr>)"
proof -
  let ?k = "cacheKey (FetchOptions.source opts) (path opts)"
  obtain cached c1 where g: "cache_get (cache s) ?k (now w) = (cached, c1)"
    by (cases "cache_get (cache s) ?k (now w)")
  have c: "cached = Some (entry sl)" using cache_get_fst [of "cache s" ?k "now w"] g assms(2) by simp
  have "positive (getRemainingTTL c1 ?k (now w))"
    using remaining_after_get [of "cache s" ?k "now w"] g assms(1) by simp
  then show ?thesis using g c by (simp add: fetchResource_def Let_def)
qed

lemma fetchResource_not_fresh:
  assumes "\<not> positive (getRemainingTTL (cache s) (cacheKey (FetchOptions.source opts) (path opts)) (now w))"
  shows "fetchResource w opts s =
           contactOrigin w opts (cacheKey (FetchOptions.source opts) (path opts))
             (map_option entry (map_of (slots (cache s)) (cacheKey (FetchOptions.source opts) (path opts))))
             (s\<lparr>cache := snd (cache_get (cache s) (cacheKey (FetchOptions.source opts) (path opts)) (now w))\<rparr>)"
proof -
  let ?k = "cacheKey (FetchOptions.source opts) (path opts)"
  obtain cached c1 where g: "cache_get (cache s) ?k (now w) = (cached, c1)"
    by (cases "cache_get (cache s) ?k (now w)")
  have c: "cached = map_option entry (map_of (slots (cache s)) ?k)"
    using cache_get_fst [of "cache s" ?k "now w"] g by simp
  have "cached = None \<or> \<not> positive (getRemainingTTL c1 ?k (now w))"
    using remaining_after_get [of "cache s" ?k "now w"] g assms by simp
  then show ?thesis using g c by (auto simp: fetchResource_def Let_def split: option.splits)
qed


lemma fetchResource_sent:
  assumes run: "fetchResource w opts s = (r, s')"
      and sent: "requests s' = requests s @ [(u, h)]"
  defines "key \<equiv> cacheKey (FetchOptions.source opts) (path opts)"
  defines "cached \<equiv> map_option entry (map_of (slots (cache s)) key)"
  shows "\<not> positive (getRemainingTTL (cache s) key (now w))
       \<and> h = conditionalHeaders cached
       \<and> (\<exists>s4. cache s4 = snd (cache_get (cache s) key (now w))
              \<and> requests s4 = requests s'
              \<and> (case origin w u h of
                    TransportFailure x \<Rightarrow> r = Inl (TransportError x) \<and> s' = s4
                  | Response code hdrs text \<Rightarrow>
                      onResponse opts key cached (replyAt w) code hdrs text s4 = (r, s')))"
proof -
  have stale: "\<not> positive (getRemainingTTL (cache s) key (now w))"
  proof
    assume p: "positive (getRemainingTTL (cache s) key (now w))"
    then obtain sl where "map_of (slots (cache s)) key = Some sl"
      using positive_present by blast
    from fetchResource_fresh [OF p [unfolded key_def] this [unfolded key_def]] run
    have "requests s' = requests s" by auto
    with sent show False by simp
  qed
  let ?s1 = "s\<lparr>cache := snd (cache_get (cache s) key (now w))\<rparr>"
  have c: "contactOrigin w opts key cached ?s1 = (r, s')"
    using fetchResource_not_fresh [OF stale [unfolded key_def]] run
    by (simp add: key_def cached_def)
  from contactOrigin_cases [OF c] sent
  obtain u' s4 where s4: "requests s4 = requests ?s1 @ [(u', conditionalHeaders cached)]"
      "cache s4 = cache ?s1"
      "case origin w u' (conditionalHeaders cached) of
         TransportFailure x \<Rightarrow> r = Inl (TransportError x) \<and> s' = s4
       | Response code hdrs text \<Rightarrow>
           onResponse opts key cached (replyAt w) code hdrs text s4 = (r, s')"
    by auto
  have "requests s' = requests s4"
    using s4(3) onResponse_requests by (auto split: reply.splits)
  with s4(1) sent have uh: "u' = u" "h = conditionalHeaders cached" by simp_all
  with s4 stale \<open>requests s' = requests s4\<close> show ?thesis by auto
qed


lemma cache_set_same:
  "map_of (slots (cache_set c k v ms t)) k = Some \<lparr>entry = v, start = t, ttl = ms\<rparr>"
  by (simp add: cache_set_def Let_def split: option.splits)

lemma cache_get_live:
  "map_of (slots c) k = Some sl \<Longrightarrow> \<not> isStale sl t \<Longrightarrow>
     map_of (slots (snd (cache_get c k t))) k = Some sl"
  by (simp add: cache_get_def)

lemma stored_after_response:
  assumes "fetchResource w opts s = (Inr res, s')"
      and "requests s' = requests s @ [(u, h)]"
      and "origin w u h = Response code hdrs bd"
      and "code < 400"
  shows "\<exists>e. map_of (slots (cache s')) (cacheKey (FetchOptions.source opts) (path opts))
               = Some \<lparr>entry = e, start = replyAt w, ttl = ttlSeconds opts * 1000\<rparr>
           \<and> body e = buffer res
           \<and> CacheEntry.etag e = FetchResult.etag res
           \<and> CacheEntry.lastModified e = FetchResult.lastModified res
           \<and> CacheEntry.contentType e = FetchResult.contentType res
           \<and> statusCode e = Some code"
proof -
  let ?k = "cacheKey (FetchOptions.source opts) (path opts)"
  let ?cached = "map_option entry (map_of (slots (cache s)) ?k)"
  from fetchResource_sent [OF assms(1,2)] assms(3)
  obtain s4 where on: "onResponse opts ?k ?cached (replyAt w) code hdrs bd s4 = (Inr res, s')"
    by auto
  from on assms(4) show ?thesis
    by (auto simp: onResponse_def fromCached_def cache_set_same Let_def
             split: if_splits option.splits bool.splits)
qed

lemma unsent_is_fresh_hit:
  assumes "fetchResource w opts s = (Inr res, s')"
      and "requests s' = requests s"
  shows "positive (getRemainingTTL (cache s)
                     (cacheKey (FetchOptions.source opts) (path opts)) (now w))"
proof (rule ccontr)
  let ?k = "cacheKey (FetchOptions.source opts) (path opts)"
  let ?cached = "map_option entry (map_of (slots (cache s)) ?k)"
  let ?s1 = "s\<lparr>cache := snd (cache_get (cache s) ?k (now w))\<rparr>"
  assume "\<not> positive (getRemainingTTL (cache s) ?k (now w))"
  from fetchResource_not_fresh [OF this] assms(1)
  have c: "contactOrigin w opts ?k ?cached ?s1 = (Inr res, s')" by simp
  from contactOrigin_cases [OF c]
  obtain u s4 where s4: "requests s4 = requests ?s1 @ [(u, conditionalHeaders ?cached)]"
     and o: "case origin w u (conditionalHeaders ?cached) of
               TransportFailure x \<Rightarrow>
                 Inr res = (Inl (TransportError x) :: error + FetchResult) \<and> s' = s4
             | Response code hdrs bd \<Rightarrow>
                 onResponse opts ?k ?cached (replyAt w) code hdrs bd s4 = (Inr res, s')"
    by auto
  from o have "requests s' = requests s4"
    using onResponse_requests by (auto split: reply.splits)
  with s4 assms(2) show False by simp
qed


lemmas model_defs = fetchResource_def contactOrigin_def onResponse_def fromCached_def
  conditionalHeaders_def rawBase_def resourceUrl_def cacheKey_def firstHeader_def
  getOwner_def getRepo_def getBranch_def requiredEnv_def DEFAULT_RAW_BASE_def
  cache_get_def cache_set_def getRemainingTTL_def isStale_def positive_def delete_key_def

lemmas test_defs = testParse_def testEnv_def testWorld_def testOptions_def testEntry_def
  testState_def testSlots_def testSlot_def testKey_def testUrl_def

lemmas accessor_defs = getManifest_def getDailyDataset_def parseJson_def updated_at_def
  manifestOptions_def manifestPath_def dailyOptions_def dailyPath_def datasetName_def

subsection \<open>C1: transport failure\<close>

text \<open>
  Claim C1 says that a fetch whose origin request fails at the transport level returns
  the cached entry as stale when there is one, and fails with
  \<open>UpstreamUnavailableError\<close> when there is none. The source does not catch the
  rejection of \<^verbatim>\<open>request\<close>. Counterexample to C1: with the stale entry of \<open>testSlots\<close> in
  the store (whether or not a stale read removes it) and with an empty store, a refused
  connection makes the fetch fail with the transport exception itself.
\<close>

theorem transport_failure_counterexample:
  "map_of (slots (cache (testState False testSlots)))
      (cacheKey (FetchOptions.source testOptions) (path testOptions)) = Some testSlot
   \<and> fst (fetchResource (testWorld (TransportFailure ''ECONNREFUSED'') 1300) testOptions
            (testState False testSlots)) = Inl (TransportError ''ECONNREFUSED'')
   \<and> fst (fetchResource (testWorld (TransportFailure ''ECONNREFUSED'') 1300) testOptions
            (testState True testSlots)) = Inl (TransportError ''ECONNREFUSED'')
   \<and> fst (fetchResource (testWorld (TransportFailure ''ECONNREFUSED'') 1300) testOptions
            (testState False [])) = Inl (TransportError ''ECONNREFUSED'')"
  by (simp add: model_defs test_defs Let_def)

text \<open>
  Claim C1, amended: for every fetch where the cache holds no entry for the key and the
  request sent to the origin suffers a transport failure (no response at all),
  \<open>fetchResource\<close> fails with the transport exception itself, which reaches the caller
  uncategorized: it is neither of the module's two error classes and carries no
  numeric upstream code. The cache store is left unchanged.
\<close>

theorem transport_failure_without_entry:
  assumes "map_of (slots (cache s)) (cacheKey (FetchOptions.source opts) (path opts)) = None"
      and "fetchResource w opts s = (r, s')"
      and "requests s' = requests s @ [(u, h)]"
      and "origin w u h = TransportFailure x"
  shows "r = Inl (TransportError x) \<and> cache s' = cache s"
  using fetchResource_sent [OF assms(2,3)] assms(1,4)
  by (auto simp: cache_get_absent)

text \<open>Witness for C1 (amended): an empty store and a refused connection.\<close>

theorem transport_failure_without_entry_witness:
  "map_of (slots (cache (testState False [])))
      (cacheKey (FetchOptions.source testOptions) (path testOptions)) = None
   \<and> requests (snd (fetchResource (testWorld (TransportFailure ''ECONNREFUSED'') 100)
                       testOptions (testState False [])))
       = requests (testState False []) @ [(testUrl, [])]
   \<and> origin (testWorld (TransportFailure ''ECONNREFUSED'') 100) testUrl []
       = TransportFailure ''ECONNREFUSED''
   \<and> fst (fetchResource (testWorld (TransportFailure ''ECONNREFUSED'') 100)
             testOptions (testState False [])) = Inl (TransportError ''ECONNREFUSED'')
   \<and> cache (snd (fetchResource (testWorld (TransportFailure ''ECONNREFUSED'') 100)
                    testOptions (testState False [])))
       = cache (testState False [])"
proof -
  let ?w = "testWorld (TransportFailure ''ECONNREFUSED'') 100"
  let ?s = "testState False []"
  have h1: "map_of (slots (cache ?s))
              (cacheKey (FetchOptions.source testOptions) (path testOptions)) = None"
    by (simp add: test_defs)
  have h2: "fetchResource ?w testOptions ?s
              = (fst (fetchResource ?w testOptions ?s), snd (fetchResource ?w testOptions ?s))"
    by simp
  have h3: "requests (snd (fetchResource ?w testOptions ?s)) = requests ?s @ [(testUrl, [])]"
    by (simp add: model_defs test_defs Let_def)
  have h4: "origin ?w testUrl [] = TransportFailure ''ECONNREFUSED''"
    by (simp add: test_defs)
  from transport_failure_without_entry [OF h1 h2 h3 h4] h1 h3 h4 show ?thesis
    by simp
qed

subsection \<open>C2: a second fetch within the TTL\<close>

text \<open>
  Claim C2: for every resource, if \<open>fetchResource\<close> is called twice for the same source
  and path, the second time within the TTL and with the entry for the key left in the
  store as the first call left it (no clear, no eviction), then the second call sends
  no request to the origin and returns the payload of the first call (and its tag, date
  and content type), with provenance \<open>cacheHit = True\<close>, \<open>servedStale = False\<close> and
  \<open>upstreamStatus\<close> the status recorded in the entry, or 200 when none is recorded.

  The first call has returned a result \<open>r1\<close> and left the state \<open>s1\<close>. Either it sent a
  request that the origin answered with a status below 400, so that it stored or
  revalidated the entry at the clock \<open>replyAt w1\<close> with the TTL of the call, and the
  second call comes before that TTL has run out. Or it sent no request, so that it was
  itself answered from an entry \<open>sl0\<close> of the store, and the second call comes before
  the TTL of that entry has run out. Nothing is assumed about what the first call left
  in the store; that the entry is there, holds the returned payload and is fresh is
  derived.
\<close>

theorem fresh_hit_second_call:
  assumes "fetchResource w1 opts s0 = (Inr r1, s1)"
      and "map_of (slots (cache s)) (cacheKey (FetchOptions.source opts) (path opts))
             = map_of (slots (cache s1)) (cacheKey (FetchOptions.source opts) (path opts))"
      and "FetchOptions.source opts2 = FetchOptions.source opts" and "path opts2 = path opts"
      and "fetchResource w2 opts2 s = (r2, s2)"
  shows "(requests s1 = requests s0 @ [(u, h)]
            \<and> origin w1 u h = Response code hdrs text \<and> code < 400
            \<and> 0 < ttlSeconds opts
            \<and> now w2 < replyAt w1 + ttlSeconds opts * 1000
          \<longrightarrow> requests s2 = requests s
              \<and> r2 = Inr \<lparr>buffer = buffer r1,
                           etag = FetchResult.etag r1,
                           lastModified = FetchResult.lastModified r1,
                           contentType = FetchResult.contentType r1,
                           metrics = \<lparr>cacheHit = True, upstreamStatus = Some code,
                                      servedStale = False,
                                      source = FetchOptions.source opts\<rparr>\<rparr>)
       \<and> (requests s1 = requests s0
            \<and> map_of (slots (cache s0)) (cacheKey (FetchOptions.source opts) (path opts))
                = Some sl0
            \<and> (ttl sl0 = 0 \<or> now w2 < start sl0 + ttl sl0)
          \<longrightarrow> requests s2 = requests s
              \<and> r2 = Inr \<lparr>buffer = buffer r1,
                           etag = FetchResult.etag r1,
                           lastModified = FetchResult.lastModified r1,
                           contentType = FetchResult.contentType r1,
                           metrics = \<lparr>cacheHit = True,
                                      upstreamStatus =
                                        Some (case statusCode (entry sl0) of
                                                None \<Rightarrow> 200 | Some c \<Rightarrow> c),
                                      servedStale = False,
                                      source = FetchOptions.source opts\<rparr>\<rparr>)"
proof (intro conjI impI)
  let ?k = "cacheKey (FetchOptions.source opts) (path opts)"
  have k2: "cacheKey (FetchOptions.source opts2) (path opts2) = ?k"
    using assms(3,4) by simp
  {
    assume a: "requests s1 = requests s0 @ [(u, h)]
                 \<and> origin w1 u h = Response code hdrs text \<and> code < 400
                 \<and> 0 < ttlSeconds opts
                 \<and> now w2 < replyAt w1 + ttlSeconds opts * 1000"
    from stored_after_response [OF assms(1), of u h code hdrs "text"] a
    obtain e where st: "map_of (slots (cache s1)) ?k
                          = Some \<lparr>entry = e, start = replyAt w1, ttl = ttlSeconds opts * 1000\<rparr>"
      and e: "body e = buffer r1" "CacheEntry.etag e = FetchResult.etag r1"
             "CacheEntry.lastModified e = FetchResult.lastModified r1"
             "CacheEntry.contentType e = FetchResult.contentType r1"
             "statusCode e = Some code"
      by auto
    let ?sl = "\<lparr>entry = e, start = replyAt w1, ttl = ttlSeconds opts * 1000\<rparr>"
    have here: "map_of (slots (cache s)) ?k = Some ?sl"
      using assms(2) st by simp
    have fresh: "positive (getRemainingTTL (cache s) ?k (now w2))"
      using here a by (simp add: getRemainingTTL_def positive_def)
    have "fetchResource w2 opts2 s =
            (Inr (fromCached opts2 (entry ?sl)
                    (case statusCode (entry ?sl) of None \<Rightarrow> 200 | Some c \<Rightarrow> c) False),
             s\<lparr>cache := snd (cache_get (cache s) ?k (now w2))\<rparr>)"
      using fetchResource_fresh [of s opts2 w2 ?sl] here fresh k2 by simp
    with assms(5) e assms(3)
    have "requests s2 = requests s
        \<and> r2 = Inr \<lparr>buffer = buffer r1,
                     etag = FetchResult.etag r1,
                     lastModified = FetchResult.lastModified r1,
                     contentType = FetchResult.contentType r1,
                     metrics = \<lparr>cacheHit = True, upstreamStatus = Some code,
                                servedStale = False,
                                source = FetchOptions.source opts\<rparr>\<rparr>"
      by (auto simp: fromCached_def)
  }
  note sent = this
  {
    assume b: "requests s1 = requests s0
                 \<and> map_of (slots (cache s0)) ?k = Some sl0
                 \<and> (ttl sl0 = 0 \<or> now w2 < start sl0 + ttl sl0)"
    have p1: "positive (getRemainingTTL (cache s0) ?k (now w1))"
      using unsent_is_fresh_hit [OF assms(1)] b by simp
    from fetchResource_fresh [OF p1] b assms(1)
    have r1: "r1 = fromCached opts (entry sl0)
                     (case statusCode (entry sl0) of None \<Rightarrow> 200 | Some c \<Rightarrow> c) False"
      and c1: "cache s1 = snd (cache_get (cache s0) ?k (now w1))"
      by auto
    have live: "\<not> isStale sl0 (now w1)"
      using positive_present [OF p1] b by auto
    have here: "map_of (slots (cache s)) ?k = Some sl0"
      using assms(2) c1 cache_get_live [of "cache s0" ?k sl0 "now w1"] b live by simp
    have fresh: "positive (getRemainingTTL (cache s) ?k (now w2))"
      using here b by (auto simp: getRemainingTTL_def positive_def)
    have "fetchResource w2 opts2 s =
            (Inr (fromCached opts2 (entry sl0)
                    (case statusCode (entry sl0) of None \<Rightarrow> 200 | Some c \<Rightarrow> c) False),
             s\<lparr>cache := snd (cache_get (cache s) ?k (now w2))\<rparr>)"
      using fetchResource_fresh [of s opts2 w2 sl0] here fresh k2 by simp
    with assms(5) r1 assms(3)
    have "requests s2 = requests s
        \<and> r2 = Inr \<lparr>buffer = buffer r1,
                     etag = FetchResult.etag r1,
                     lastModified = FetchResult.lastModified r1,
                     contentType = FetchResult.contentType r1,
                     metrics = \<lparr>cacheHit = True,
                                upstreamStatus =
                                  Some (case statusCode (entry sl0) of
                                          None \<Rightarrow> 200 | Some c \<Rightarrow> c),
                                servedStale = False,
                                source = FetchOptions.source opts\<rparr>\<rparr>"
      by (auto simp: fromCached_def)
  }
  note unsent = this
  show "requests s1 = requests s0 @ [(u, h)]
          \<and> origin w1 u h = Response code hdrs text \<and> code < 400
          \<and> 0 < ttlSeconds opts
          \<and> now w2 < replyAt w1 + ttlSeconds opts * 1000 \<Longrightarrow> requests s2 = requests s"
    using sent by simp
  show "requests s1 = requests s0 @ [(u, h)]
          \<and> origin w1 u h = Response code hdrs text \<and> code < 400
          \<and> 0 < ttlSeconds opts
          \<and> now w2 < replyAt w1 + ttlSeconds opts * 1000 \<Longrightarrow>
        r2 = Inr \<lparr>buffer = buffer r1,
                   etag = FetchResult.etag r1,
                   lastModified = FetchResult.lastModified r1,
                   contentType = FetchResult.contentType r1,
                   metrics = \<lparr>cacheHit = True, upstreamStatus = Some code,
                              servedStale = False,
                              source = FetchOptions.source opts\<rparr>\<rparr>"
    using sent by simp
  show "requests s1 = requests s0
          \<and> map_of (slots (cache s0)) ?k = Some sl0
          \<and> (ttl sl0 = 0 \<or> now w2 < start sl0 + ttl sl0) \<Longrightarrow> requests s2 = requests s"
    using unsent by simp
  show "requests s1 = requests s0
          \<and> map_of (slots (cache s0)) ?k = Some sl0
          \<and> (ttl sl0 = 0 \<or> now w2 < start sl0 + ttl sl0) \<Longrightarrow>
        r2 = Inr \<lparr>buffer = buffer r1,
                   etag = FetchResult.etag r1,
                   lastModified = FetchResult.lastModified r1,
                   contentType = FetchResult.contentType r1,
                   metrics = \<lparr>cacheHit = True,
                              upstreamStatus =
                                Some (case statusCode (entry sl0) of
                                        None \<Rightarrow> 200 | Some c \<Rightarrow> c),
                              servedStale = False,
                              source = FetchOptions.source opts\<rparr>\<rparr>"
    using unsent by simp
qed

text \<open>Witness for C2. First scenario of the test file: the store is empty, the origin
  answers 200 at clock \<open>100\<close> (response at \<open>120\<close>, TTL 1000 ms); the second call, at
  clock \<open>600\<close>, is made in a world whose origin is unreachable, and is answered from the
  cache. Then a call that is itself a fresh hit, on the entry of \<open>testSlots\<close> at clock
  \<open>600\<close>, followed by another at clock \<open>900\<close>.\<close>

theorem fresh_hit_second_call_witness:
  "fst (fetchResource (testWorld (Response 200 [(''etag'', Single ''etag-1'')] ''[1]'') 100)
          testOptions (testState False []))
     = Inr \<lparr>buffer = ''[1]'', etag = Some ''etag-1'', lastModified = None, contentType = None,
             metrics = \<lparr>cacheHit = False, upstreamStatus = Some 200, servedStale = False,
                        source = ''borrowing:2025-09-29''\<rparr>\<rparr>
   \<and> requests (snd (fetchResource
                       (testWorld (Response 200 [(''etag'', Single ''etag-1'')] ''[1]'') 100)
                       testOptions (testState False [])))
     = requests (testState False []) @ [(testUrl, [])]
   \<and> fst (fetchResource (testWorld (TransportFailure ''ECONNREFUSED'') 600) testOptions
        (snd (fetchResource
                (testWorld (Response 200 [(''etag'', Single ''etag-1'')] ''[1]'') 100)
                testOptions (testState False []))))
     = Inr \<lparr>buffer = ''[1]'', etag = Some ''etag-1'', lastModified = None, contentType = None,
             metrics = \<lparr>cacheHit = True, upstreamStatus = Some 200, servedStale = False,
                        source = ''borrowing:2025-09-29''\<rparr>\<rparr>
   \<and> requests (snd (fetchResource (testWorld (TransportFailure ''ECONNREFUSED'') 600)
        testOptions
        (snd (fetchResource
                (testWorld (Response 200 [(''etag'', Single ''etag-1'')] ''[1]'') 100)
                testOptions (testState False [])))))
     = [(testUrl, [])]
   \<and> fst (fetchResource (testWorld (TransportFailure ''ECONNREFUSED'') 600) testOptions
            (testState False testSlots))
     = Inr \<lparr>buffer = ''[1]'', etag = Some ''etag-1'', lastModified = None,
             contentType = Some ''application/json'',
             metrics = \<lparr>cacheHit = True, upstreamStatus = Some 200, servedStale = False,
                        source = ''borrowing:2025-09-29''\<rparr>\<rparr>
   \<and> fst (fetchResource (testWorld (TransportFailure ''ECONNREFUSED'') 900) testOptions
        (snd (fetchResource (testWorld (TransportFailure ''ECONNREFUSED'') 600) testOptions
                (testState False testSlots))))
     = Inr \<lparr>buffer = ''[1]'', etag = Some ''etag-1'', lastModified = None,
             contentType = Some ''application/json'',
             metrics = \<lparr>cacheHit = True, upstreamStatus = Some 200, servedStale = False,
                        source = ''borrowing:2025-09-29''\<rparr>\<rparr>
   \<and> requests (snd (fetchResource (testWorld (TransportFailure ''ECONNREFUSED'') 900)
        testOptions
        (snd (fetchResource (testWorld (TransportFailure ''ECONNREFUSED'') 600) testOptions
                (testState False testSlots)))))
     = []"
proof -
  let ?w1 = "testWorld (Response 200 [(''etag'', Single ''etag-1'')] ''[1]'') 100"
  let ?w2 = "testWorld (TransportFailure ''ECONNREFUSED'') 600"
  let ?w3 = "testWorld (TransportFailure ''ECONNREFUSED'') 900"
  let ?s0 = "testState False []"
  let ?t0 = "testState False testSlots"
  let ?k = "cacheKey (FetchOptions.source testOptions) (path testOptions)"
  let ?r1 = "\<lparr>buffer = ''[1]'', etag = Some ''etag-1'', lastModified = None,
              contentType = None,
              metrics = \<lparr>cacheHit = False, upstreamStatus = Some 200, servedStale = False,
                         source = ''borrowing:2025-09-29''\<rparr>\<rparr>"
  let ?q1 = "\<lparr>buffer = ''[1]'', etag = Some ''etag-1'', lastModified = None,
              contentType = Some ''application/json'',
              metrics = \<lparr>cacheHit = True, upstreamStatus = Some 200, servedStale = False,
                         source = ''borrowing:2025-09-29''\<rparr>\<rparr>"
  let ?s1 = "snd (fetchResource ?w1 testOptions ?s0)"
  let ?t1 = "snd (fetchResource ?w2 testOptions ?t0)"
  have r1: "fst (fetchResource ?w1 testOptions ?s0) = Inr ?r1"
    by (simp add: model_defs test_defs Let_def)
  have h1: "fetchResource ?w1 testOptions ?s0 = (Inr ?r1, ?s1)"
    using r1 by (simp add: prod_eq_iff)
  have h5: "fetchResource ?w2 testOptions ?s1
              = (fst (fetchResource ?w2 testOptions ?s1), snd (fetchResource ?w2 testOptions ?s1))"
    by simp
  have a1: "requests ?s1 = requests ?s0 @ [(testUrl, [])]"
    by (simp add: model_defs test_defs Let_def)
  have a2: "origin ?w1 testUrl [] = Response 200 [(''etag'', Single ''etag-1'')] ''[1]''"
    by (simp add: test_defs)
  have a3: "(200::int) < 400" "0 < ttlSeconds testOptions"
           "now ?w2 < replyAt ?w1 + ttlSeconds testOptions * 1000"
    by (simp_all add: test_defs)
  have src: "FetchOptions.source testOptions = ''borrowing:2025-09-29''"
    by (simp add: test_defs)
  have q0: "requests ?s0 = []" by (simp add: test_defs)
  from fresh_hit_second_call [OF h1 refl refl refl h5,
         where u = testUrl and h = "[]" and code = 200
           and hdrs = "[(''etag'', Single ''etag-1'')]" and ?text = "''[1]''"]
       a1 a2 a3
  have c1: "requests (snd (fetchResource ?w2 testOptions ?s1)) = requests ?s1
          \<and> fst (fetchResource ?w2 testOptions ?s1)
              = Inr \<lparr>buffer = ''[1]'', etag = Some ''etag-1'', lastModified = None,
                      contentType = None,
                      metrics = \<lparr>cacheHit = True, upstreamStatus = Some 200,
                                 servedStale = False, source = ''borrowing:2025-09-29''\<rparr>\<rparr>"
    by (simp add: src)
  have q1: "fst (fetchResource ?w2 testOptions ?t0) = Inr ?q1"
    by (simp add: model_defs test_defs Let_def)
  have g1: "fetchResource ?w2 testOptions ?t0 = (Inr ?q1, ?t1)"
    using q1 by (simp add: prod_eq_iff)
  have g5: "fetchResource ?w3 testOptions ?t1
              = (fst (fetchResource ?w3 testOptions ?t1), snd (fetchResource ?w3 testOptions ?t1))"
    by simp
  have b1: "requests ?t1 = requests ?t0"
    by (simp add: model_defs test_defs Let_def)
  have b2: "map_of (slots (cache ?t0)) ?k = Some testSlot"
    by (simp add: model_defs test_defs)
  have b3: "ttl testSlot = 0 \<or> now ?w3 < start testSlot + ttl testSlot"
    by (simp add: test_defs)
  have st: "statusCode (entry testSlot) = Some 200"
    by (simp add: test_defs)
  have t0: "requests ?t0 = []" by (simp add: test_defs)
  from fresh_hit_second_call [OF g1 refl refl refl g5, where ?sl0.0 = testSlot] b1 b2 b3
  have c2: "requests (snd (fetchResource ?w3 testOptions ?t1)) = requests ?t1
          \<and> fst (fetchResource ?w3 testOptions ?t1)
              = Inr \<lparr>buffer = ''[1]'', etag = Some ''etag-1'', lastModified = None,
                      contentType = Some ''application/json'',
                      metrics = \<lparr>cacheHit = True, upstreamStatus = Some 200,
                                 servedStale = False, source = ''borrowing:2025-09-29''\<rparr>\<rparr>"
    by (simp add: src st)
  from r1 a1 c1 q1 c2 b1 q0 t0 show ?thesis by simp
qed

subsection \<open>C3: an origin error is answered from the stale entry\<close>

text \<open>
  Claim C3: for every resource with an existing cache entry whose TTL has elapsed, if
  the origin responds to the request of the fetch with any status of 400 or more
  (404 included), \<open>fetchResource\<close> raises no error and returns the cached payload
  unchanged (with the entry's tag, date and content type), with provenance
  \<open>cacheHit = True\<close>, \<open>servedStale = True\<close> and \<open>upstreamStatus\<close> the observed status.
\<close>

theorem stale_on_error:
  assumes "map_of (slots (cache s)) (cacheKey (FetchOptions.source opts) (path opts)) = Some sl"
      and "\<not> positive (getRemainingTTL (cache s)
                          (cacheKey (FetchOptions.source opts) (path opts)) (now w))"
      and "fetchResource w opts s = (r, s')"
      and "requests s' = requests s @ [(u, h)]"
      and "origin w u h = Response code hdrs text"
      and "400 \<le> code"
  shows "r = Inr \<lparr>buffer = body (entry sl),
                  etag = CacheEntry.etag (entry sl),
                  lastModified = CacheEntry.lastModified (entry sl),
                  contentType = CacheEntry.contentType (entry sl),
                  metrics = \<lparr>cacheHit = True, upstreamStatus = Some code,
                             servedStale = True, source = FetchOptions.source opts\<rparr>\<rparr>"
  using fetchResource_sent [OF assms(3,4)] assms(1,5,6)
  by (auto simp: onResponse_def fromCached_def split: if_splits)

text \<open>Witness for C3: the second scenario of the test file; the entry set at clock \<open>120\<close>
  with a TTL of one second is read at clock \<open>1300\<close> and the origin answers 502.\<close>

theorem stale_on_error_witness:
  "map_of (slots (cache (testState False testSlots)))
      (cacheKey (FetchOptions.source testOptions) (path testOptions)) = Some testSlot
   \<and> \<not> positive (getRemainingTTL (cache (testState False testSlots))
                    (cacheKey (FetchOptions.source testOptions) (path testOptions)) 1300)
   \<and> requests (snd (fetchResource (testWorld (Response 502 [] ''bad gateway'') 1300)
                       testOptions (testState False testSlots)))
       = requests (testState False testSlots) @ [(testUrl, [(''If-None-Match'', ''etag-1'')])]
   \<and> fst (fetchResource (testWorld (Response 502 [] ''bad gateway'') 1300) testOptions
             (testState False testSlots))
       = Inr \<lparr>buffer = ''[1]'', etag = Some ''etag-1'', lastModified = None,
               contentType = Some ''application/json'',
               metrics = \<lparr>cacheHit = True, upstreamStatus = Some 502, servedStale = True,
                          source = ''borrowing:2025-09-29''\<rparr>\<rparr>"
proof -
  let ?w = "testWorld (Response 502 [] ''bad gateway'') 1300"
  let ?s = "testState False testSlots"
  let ?k = "cacheKey (FetchOptions.source testOptions) (path testOptions)"
  have h1: "map_of (slots (cache ?s)) ?k = Some testSlot"
    by (simp add: model_defs test_defs)
  have h2: "\<not> positive (getRemainingTTL (cache ?s) ?k (now ?w))"
    by (simp add: model_defs test_defs)
  have h3: "fetchResource ?w testOptions ?s
              = (fst (fetchResource ?w testOptions ?s), snd (fetchResource ?w testOptions ?s))"
    by simp
  have h4: "requests (snd (fetchResource ?w testOptions ?s))
              = requests ?s @ [(testUrl, [(''If-None-Match'', ''etag-1'')])]"
    by (simp add: model_defs test_defs Let_def)
  have h5: "origin ?w testUrl [(''If-None-Match'', ''etag-1'')] = Response 502 [] ''bad gateway''"
    by (simp add: test_defs)
  have h6: "(400::int) \<le> 502" by simp
  from stale_on_error [OF h1 h2 h3 h4 h5 h6] h1 h2 h4 show ?thesis
    by (simp add: test_defs)
qed

subsection \<open>C4: revalidation by a 304\<close>

text \<open>
  Claim C4: for every resource with a cached entry carrying the entity tag \<open>E\<close>, the
  request of a fetch that goes to the origin carries \<^verbatim>\<open>If-None-Match: E\<close>; if the origin
  answers it with status 304, \<open>fetchResource\<close> stores the entry again with its payload
  unaltered, its clock reset to the time of the response and the TTL of the call, so
  that (for a positive TTL) the entry is fresh throughout the TTL that follows, and
  returns the payload of before the revalidation with provenance \<open>cacheHit = True\<close>,
  \<open>servedStale = False\<close>, \<open>upstreamStatus = 304\<close>.
\<close>

theorem revalidation_304:
  assumes "map_of (slots (cache s)) (cacheKey (FetchOptions.source opts) (path opts)) = Some sl"
      and "CacheEntry.etag (entry sl) = Some E" and "E \<noteq> []"
      and "fetchResource w opts s = (r, s')"
      and "requests s' = requests s @ [(u, h)]"
      and "origin w u h = Response 304 hdrs text"
      and "0 < ttlSeconds opts"
      and "replyAt w \<le> t" and "t < replyAt w + ttlSeconds opts * 1000"
  shows "h = [(''If-None-Match'', E)]
       \<and> r = Inr \<lparr>buffer = body (entry sl),
                    etag = Some E,
                    lastModified = CacheEntry.lastModified (entry sl),
                    contentType = CacheEntry.contentType (entry sl),
                    metrics = \<lparr>cacheHit = True, upstreamStatus = Some 304,
                               servedStale = False, source = FetchOptions.source opts\<rparr>\<rparr>
       \<and> map_of (slots (cache s')) (cacheKey (FetchOptions.source opts) (path opts))
           = Some \<lparr>entry = (entry sl)\<lparr>statusCode := Some 304\<rparr>,
                   start = replyAt w, ttl = ttlSeconds opts * 1000\<rparr>
       \<and> positive (getRemainingTTL (cache s') (cacheKey (FetchOptions.source opts) (path opts)) t)"
proof -
  let ?k = "cacheKey (FetchOptions.source opts) (path opts)"
  from fetchResource_sent [OF assms(4,5)] assms(1,6)
  obtain s4 where h: "h = conditionalHeaders (Some (entry sl))"
    and on: "onResponse opts ?k (Some (entry sl)) (replyAt w) 304 hdrs text s4 = (r, s')"
    by auto
  have 1: "h = [(''If-None-Match'', E)]"
    using h assms(2,3) by (simp add: conditionalHeaders_def)
  from on have r: "r = Inr (fromCached opts (entry sl) 304 False)"
    and c: "cache s' = cache_set (cache s4) ?k ((entry sl)\<lparr>statusCode := Some 304\<rparr>)
                         (ttlSeconds opts * 1000) (replyAt w)"
    by (auto simp: onResponse_def)
  have 3: "map_of (slots (cache s')) ?k
           = Some \<lparr>entry = (entry sl)\<lparr>statusCode := Some 304\<rparr>,
                   start = replyAt w, ttl = ttlSeconds opts * 1000\<rparr>"
    unfolding c by (rule cache_set_same)
  have 4: "positive (getRemainingTTL (cache s') ?k t)"
    using 3 assms(7,8,9) by (simp add: getRemainingTTL_def positive_def)
  from 1 r 3 4 assms(2) show ?thesis by (simp add: fromCached_def)
qed

text \<open>Witness for C4: the third scenario of the test file; the entry set at clock \<open>120\<close>
  is revalidated at clock \<open>1300\<close> (response at \<open>1320\<close>) and is fresh at clock \<open>1500\<close>.\<close>

theorem revalidation_304_witness:
  "map_of (slots (cache (testState False testSlots)))
      (cacheKey (FetchOptions.source testOptions) (path testOptions)) = Some testSlot
   \<and> CacheEntry.etag (entry testSlot) = Some ''etag-1''
   \<and> requests (snd (fetchResource
                       (testWorld (Response 304 [(''etag'', Single ''etag-1'')] []) 1300)
                       testOptions (testState False testSlots)))
       = requests (testState False testSlots) @ [(testUrl, [(''If-None-Match'', ''etag-1'')])]
   \<and> fst (fetchResource (testWorld (Response 304 [(''etag'', Single ''etag-1'')] []) 1300)
             testOptions (testState False testSlots))
       = Inr \<lparr>buffer = ''[1]'', etag = Some ''etag-1'', lastModified = None,
               contentType = Some ''application/json'',
               metrics = \<lparr>cacheHit = True, upstreamStatus = Some 304, servedStale = False,
                          source = ''borrowing:2025-09-29''\<rparr>\<rparr>
   \<and> map_of (slots (cache (snd (fetchResource
                 (testWorld (Response 304 [(''etag'', Single ''etag-1'')] []) 1300)
                 testOptions (testState False testSlots)))))
        (cacheKey (FetchOptions.source testOptions) (path testOptions))
       = Some \<lparr>entry = testEntry\<lparr>statusCode := Some 304\<rparr>, start = 1320, ttl = 1000\<rparr>
   \<and> positive (getRemainingTTL (cache (snd (fetchResource
                 (testWorld (Response 304 [(''etag'', Single ''etag-1'')] []) 1300)
                 testOptions (testState False testSlots))))
        (cacheKey (FetchOptions.source testOptions) (path testOptions)) 1500)"
proof -
  let ?w = "testWorld (Response 304 [(''etag'', Single ''etag-1'')] []) 1300"
  let ?s = "testState False testSlots"
  let ?k = "cacheKey (FetchOptions.source testOptions) (path testOptions)"
  have h1: "map_of (slots (cache ?s)) ?k = Some testSlot"
    by (simp add: model_defs test_defs)
  have h2: "CacheEntry.etag (entry testSlot) = Some ''etag-1''"
    by (simp add: test_defs)
  have h3: "''etag-1'' \<noteq> []" by simp
  have h4: "fetchResource ?w testOptions ?s
              = (fst (fetchResource ?w testOptions ?s), snd (fetchResource ?w testOptions ?s))"
    by simp
  have h5: "requests (snd (fetchResource ?w testOptions ?s))
              = requests ?s @ [(testUrl, [(''If-None-Match'', ''etag-1'')])]"
    by (simp add: model_defs test_defs Let_def)
  have h6: "origin ?w testUrl [(''If-None-Match'', ''etag-1'')]
              = Response 304 [(''etag'', Single ''etag-1'')] []"
    by (simp add: test_defs)
  have h7: "0 < ttlSeconds testOptions" by (simp add: test_defs)
  have h8: "replyAt ?w \<le> 1500" by (simp add: test_defs)
  have h9: "1500 < replyAt ?w + ttlSeconds testOptions * 1000" by (simp add: test_defs)
  from revalidation_304 [OF h1 h2 h3 h4 h5 h6 h7 h8 h9] h1 h2 h5 show ?thesis
    by (simp add: test_defs)
qed

subsection \<open>C5: a first fetch answered 404\<close>

text \<open>
  Claim C5: for every resource with no cache entry, if the origin answers the request
  of the fetch with status 404, \<open>fetchResource\<close> fails with \<open>UpstreamNotFoundError\<close>
  (so it returns no payload) and leaves the cache store as it was: no entry is created.
\<close>

theorem first_miss_not_found:
  assumes "map_of (slots (cache s)) (cacheKey (FetchOptions.source opts) (path opts)) = None"
      and "fetchResource w opts s = (r, s')"
      and "requests s' = requests s @ [(u, h)]"
      and "origin w u h = Response 404 hdrs text"
  shows "r = Inl (UpstreamNotFoundError (''Resource not found upstream: '' @ path opts))
       \<and> cache s' = cache s"
  using fetchResource_sent [OF assms(2,3)] assms(1,4)
  by (auto simp: onResponse_def cache_get_absent)

text \<open>Witness for C5: an empty store and an origin that answers 404.\<close>

theorem first_miss_not_found_witness:
  "map_of (slots (cache (testState False [])))
      (cacheKey (FetchOptions.source testOptions) (path testOptions)) = None
   \<and> requests (snd (fetchResource (testWorld (Response 404 [] ''Not Found'') 100)
                       testOptions (testState False [])))
       = requests (testState False []) @ [(testUrl, [])]
   \<and> fst (fetchResource (testWorld (Response 404 [] ''Not Found'') 100) testOptions
             (testState False []))
       = Inl (UpstreamNotFoundError
                ''Resource not found upstream: data/borrowing/2025-09-29.json'')
   \<and> slots (cache (snd (fetchResource (testWorld (Response 404 [] ''Not Found'') 100)
                           testOptions (testState False [])))) = []"
proof -
  let ?w = "testWorld (Response 404 [] ''Not Found'') 100"
  let ?s = "testState False []"
  have h1: "map_of (slots (cache ?s))
              (cacheKey (FetchOptions.source testOptions) (path testOptions)) = None"
    by (simp add: test_defs)
  have h2: "fetchResource ?w testOptions ?s
              = (fst (fetchResource ?w testOptions ?s), snd (fetchResource ?w testOptions ?s))"
    by simp
  have h3: "requests (snd (fetchResource ?w testOptions ?s)) = requests ?s @ [(testUrl, [])]"
    by (simp add: model_defs test_defs Let_def)
  have h4: "origin ?w testUrl [] = Response 404 [] ''Not Found''"
    by (simp add: test_defs)
  from first_miss_not_found [OF h1 h2 h3 h4] h1 h3 show ?thesis
    by (simp add: test_defs)
qed

subsection \<open>C6: what may replace a payload\<close>




subsection \<open>C7: the stored entry after an origin error\<close>

text \<open>
  Claim C7 says that a fetch which finds an entry and observes an origin error updates
  the entry in place, setting its last-seen status to the observed code. The error
  branches of \<open>fetchResource\<close> return without a write to the store. Counterexample to
  C7: the stale entry of \<open>testSlots\<close>, recorded with status 200, and an origin that
  answers 502. In a store that keeps stale entries on a read the entry still records
  200 afterwards; in a store that removes them there is no entry afterwards.
\<close>

theorem error_status_counterexample:
  "map_of (slots (cache (snd (fetchResource (testWorld (Response 502 [] ''bad gateway'') 1300)
                                testOptions (testState True testSlots)))))
      (cacheKey (FetchOptions.source testOptions) (path testOptions)) = Some testSlot
   \<and> statusCode (entry testSlot) = Some 200
   \<and> map_of (slots (cache (snd (fetchResource (testWorld (Response 502 [] ''bad gateway'') 1300)
                                   testOptions (testState False testSlots)))))
        (cacheKey (FetchOptions.source testOptions) (path testOptions)) = None"
  by (simp add: model_defs test_defs Let_def)

text \<open>
  Claim C7, amended: for every fetch that finds an existing cache entry and observes an
  origin error (a status of 400 or more), the entry is returned as stale, with the
  observed status code in the provenance of the result only; \<open>fetchResource\<close> does not
  write the store, which is left as the lookup left it, so the entry stored under the
  key, if still there, is the one found, with its payload bytes and its last-seen
  status untouched.
\<close>

theorem error_leaves_entry_unwritten:
  assumes "map_of (slots (cache s)) (cacheKey (FetchOptions.source opts) (path opts)) = Some sl"
      and "fetchResource w opts s = (r, s')"
      and "requests s' = requests s @ [(u, h)]"
      and "origin w u h = Response code hdrs text"
      and "400 \<le> code"
  shows "r = Inr \<lparr>buffer = body (entry sl),
                  etag = CacheEntry.etag (entry sl),
                  lastModified = CacheEntry.lastModified (entry sl),
                  contentType = CacheEntry.contentType (entry sl),
                  metrics = \<lparr>cacheHit = True, upstreamStatus = Some code,
                             servedStale = True, source = FetchOptions.source opts\<rparr>\<rparr>
       \<and> cache s' = snd (cache_get (cache s)
                           (cacheKey (FetchOptions.source opts) (path opts)) (now w))
       \<and> (map_of (slots (cache s')) (cacheKey (FetchOptions.source opts) (path opts)) = Some sl
          \<or> map_of (slots (cache s')) (cacheKey (FetchOptions.source opts) (path opts)) = None)"
proof -
  let ?k = "cacheKey (FetchOptions.source opts) (path opts)"
  from fetchResource_sent [OF assms(2,3)] assms(1,4)
  obtain s4 where s4: "cache s4 = snd (cache_get (cache s) ?k (now w))"
    and on: "onResponse opts ?k (Some (entry sl)) (replyAt w) code hdrs text s4 = (r, s')"
    by auto
  from on assms(5) have r: "r = Inr (fromCached opts (entry sl) code True)" and s': "s' = s4"
    by (auto simp: onResponse_def split: if_splits)
  have c: "cache s' = snd (cache_get (cache s) ?k (now w))"
    using s4 s' by simp
  have "map_of (slots (cache s')) ?k = Some sl \<or> map_of (slots (cache s')) ?k = None"
    using assms(1) unfolding c
    by (simp add: cache_get_def map_of_delete_key)
  with r c show ?thesis by (simp add: fromCached_def)
qed

text \<open>Witness for C7 (amended): the stale entry of \<open>testSlots\<close>, in a store that keeps
  stale entries on a read, and an origin that answers 502.\<close>

theorem error_leaves_entry_unwritten_witness:
  "map_of (slots (cache (testState True testSlots)))
      (cacheKey (FetchOptions.source testOptions) (path testOptions)) = Some testSlot
   \<and> requests (snd (fetchResource (testWorld (Response 502 [] ''bad gateway'') 1300)
                       testOptions (testState True testSlots)))
       = requests (testState True testSlots) @ [(testUrl, [(''If-None-Match'', ''etag-1'')])]
   \<and> fst (fetchResource (testWorld (Response 502 [] ''bad gateway'') 1300) testOptions
             (testState True testSlots))
       = Inr \<lparr>buffer = ''[1]'', etag = Some ''etag-1'', lastModified = None,
               contentType = Some ''application/json'',
               metrics = \<lparr>cacheHit = True, upstreamStatus = Some 502, servedStale = True,
                          source = ''borrowing:2025-09-29''\<rparr>\<rparr>
   \<and> cache (snd (fetchResource (testWorld (Response 502 [] ''bad gateway'') 1300)
                    testOptions (testState True testSlots)))
       = cache (testState True testSlots)"
proof -
  let ?w = "testWorld (Response 502 [] ''bad gateway'') 1300"
  let ?s = "testState True testSlots"
  let ?k = "cacheKey (FetchOptions.source testOptions) (path testOptions)"
  have h1: "map_of (slots (cache ?s)) ?k = Some testSlot"
    by (simp add: model_defs test_defs)
  have h2: "fetchResource ?w testOptions ?s
              = (fst (fetchResource ?w testOptions ?s), snd (fetchResource ?w testOptions ?s))"
    by simp
  have h3: "requests (snd (fetchResource ?w testOptions ?s))
              = requests ?s @ [(testUrl, [(''If-None-Match'', ''etag-1'')])]"
    by (simp add: model_defs test_defs Let_def)
  have h4: "origin ?w testUrl [(''If-None-Match'', ''etag-1'')] = Response 502 [] ''bad gateway''"
    by (simp add: test_defs)
  have h5: "(400::int) \<le> 502" by simp
  have e: "entry testSlot = \<lparr>body = ''[1]'', etag = Some ''etag-1'', lastModified = None,
                contentType = Some ''application/json'', statusCode = Some 200\<rparr>"
    and o: "FetchOptions.source testOptions = ''borrowing:2025-09-29''"
    by (simp_all add: test_defs)
  have g: "snd (cache_get (cache ?s) ?k (now ?w)) = cache ?s"
    by (simp add: model_defs test_defs)
  from error_leaves_entry_unwritten [OF h1 h2 h3 h4 h5] h1 h3 e o g show ?thesis
    by simp
qed

subsection \<open>C8: missing configuration\<close>

text \<open>
  Claim C8 says that every fetch fails with a configuration error when the owner, the
  repository or the branch is missing from the environment. \<open>getBranch\<close> falls back to
  \<^verbatim>\<open>main\<close>, and a fresh cache hit returns before the configuration is read.
  Counterexample to C8: in the environment of the tests, which sets no branch, a fetch
  on an empty store succeeds and its request goes to the branch \<^verbatim>\<open>main\<close>; and in an
  empty environment a fetch at clock \<open>600\<close> is answered from the fresh entry of
  \<open>testSlots\<close>.
\<close>

theorem missing_config_counterexample:
  "env (testWorld (Response 200 [] ''[1]'') 100) ''GITHUB_BRANCH'' = None
   \<and> fst (fetchResource (testWorld (Response 200 [] ''[1]'') 100) testOptions
            (testState False []))
       = Inr \<lparr>buffer = ''[1]'', etag = None, lastModified = None, contentType = None,
               metrics = \<lparr>cacheHit = False, upstreamStatus = Some 200, servedStale = False,
                          source = ''borrowing:2025-09-29''\<rparr>\<rparr>
   \<and> requests (snd (fetchResource (testWorld (Response 200 [] ''[1]'') 100) testOptions
                       (testState False [])))
       = [(''https://raw.githubusercontent.com/test-owner/test-repo/main/data/borrowing/2025-09-29.json'', [])]
   \<and> fst (fetchResource ((testWorld (Response 200 [] ''[1]'') 600)\<lparr>env := Map.empty\<rparr>)
            testOptions (testState False testSlots))
       = Inr \<lparr>buffer = ''[1]'', etag = Some ''etag-1'', lastModified = None,
               contentType = Some ''application/json'',
               metrics = \<lparr>cacheHit = True, upstreamStatus = Some 200, servedStale = False,
                          source = ''borrowing:2025-09-29''\<rparr>\<rparr>"
  by (simp add: model_defs test_defs Let_def)

text \<open>
  Claim C8, amended: fetch configuration fails fast when a required origin identifier is
  absent: for every fetch that is not answered by a fresh cache hit, if the owner or the
  repository is neither memoised nor set to a non-empty value in the environment, the
  fetch fails with a configuration error naming the first missing variable, before any
  origin contact. The branch is not required: when it is neither memoised nor set,
  \<open>getBranch\<close> yields \<^verbatim>\<open>main\<close>.
\<close>

theorem missing_config_fails_fast:
  "(\<not> positive (getRemainingTTL (cache s)
                   (cacheKey (FetchOptions.source opts) (path opts)) (now w))
    \<and> (falsy (cachedOwner s) \<and> falsy (env w ''GITHUB_OWNER'')
       \<or> falsy (cachedRepo s) \<and> falsy (env w ''GITHUB_REPO''))
    \<and> fetchResource w opts s = (r, s')
    \<longrightarrow> r = Inl (Error (''Missing required environment variable: '' @
                        (if falsy (cachedOwner s) \<and> falsy (env w ''GITHUB_OWNER'')
                         then ''GITHUB_OWNER'' else ''GITHUB_REPO'')))
        \<and> requests s' = requests s)
   \<and> (falsy (cachedBranch s) \<and> env w ''GITHUB_BRANCH'' = None
      \<longrightarrow> fst (getBranch w s) = ''main'')"
proof (intro conjI impI)
  assume a: "\<not> positive (getRemainingTTL (cache s)
                   (cacheKey (FetchOptions.source opts) (path opts)) (now w))
    \<and> (falsy (cachedOwner s) \<and> falsy (env w ''GITHUB_OWNER'')
       \<or> falsy (cachedRepo s) \<and> falsy (env w ''GITHUB_REPO''))
    \<and> fetchResource w opts s = (r, s')"
  let ?k = "cacheKey (FetchOptions.source opts) (path opts)"
  let ?cached = "map_option entry (map_of (slots (cache s)) ?k)"
  let ?s1 = "s\<lparr>cache := snd (cache_get (cache s) ?k (now w))\<rparr>"
  from a fetchResource_not_fresh [of s opts w]
  have c: "contactOrigin w opts ?k ?cached ?s1 = (r, s')" by simp
  from a have m: "falsy (cachedOwner ?s1) \<and> falsy (env w ''GITHUB_OWNER'')
                \<or> falsy (cachedRepo ?s1) \<and> falsy (env w ''GITHUB_REPO'')" by simp
  have "r = Inl (Error (''Missing required environment variable: '' @
                        (if falsy (cachedOwner ?s1) \<and> falsy (env w ''GITHUB_OWNER'')
                         then ''GITHUB_OWNER'' else ''GITHUB_REPO'')))
        \<and> requests s' = requests ?s1"
    using c m
    by (auto simp: contactOrigin_def getOwner_def getRepo_def requiredEnv_def falsy_def Let_def
             split: option.splits if_splits)
  then show "r = Inl (Error (''Missing required environment variable: '' @
                        (if falsy (cachedOwner s) \<and> falsy (env w ''GITHUB_OWNER'')
                         then ''GITHUB_OWNER'' else ''GITHUB_REPO'')))"
    and "requests s' = requests s" by simp_all
next
  assume "falsy (cachedBranch s) \<and> env w ''GITHUB_BRANCH'' = None"
  then show "fst (getBranch w s) = ''main''"
    by (auto simp: getBranch_def falsy_def Let_def split: option.splits)
qed

text \<open>Witness for C8 (amended): an environment that sets the owner only, an empty
  store; and the environment of the tests, which sets no branch.\<close>

theorem missing_config_fails_fast_witness:
  "\<not> positive (getRemainingTTL (cache (testState False []))
                 (cacheKey (FetchOptions.source testOptions) (path testOptions)) 100)
   \<and> falsy (cachedRepo (testState False []))
   \<and> falsy (env ((testWorld (Response 200 [] ''[1]'') 100)
                   \<lparr>env := [''GITHUB_OWNER'' \<mapsto> ''test-owner'']\<rparr>) ''GITHUB_REPO'')
   \<and> fst (fetchResource ((testWorld (Response 200 [] ''[1]'') 100)
                           \<lparr>env := [''GITHUB_OWNER'' \<mapsto> ''test-owner'']\<rparr>)
            testOptions (testState False []))
       = Inl (Error ''Missing required environment variable: GITHUB_REPO'')
   \<and> requests (snd (fetchResource ((testWorld (Response 200 [] ''[1]'') 100)
                           \<lparr>env := [''GITHUB_OWNER'' \<mapsto> ''test-owner'']\<rparr>)
            testOptions (testState False []))) = []
   \<and> falsy (cachedBranch (testState False []))
   \<and> env (testWorld (Response 200 [] ''[1]'') 100) ''GITHUB_BRANCH'' = None
   \<and> fst (getBranch (testWorld (Response 200 [] ''[1]'') 100) (testState False [])) = ''main''"
proof -
  let ?w = "(testWorld (Response 200 [] ''[1]'') 100)\<lparr>env := [''GITHUB_OWNER'' \<mapsto> ''test-owner'']\<rparr>"
  let ?w2 = "testWorld (Response 200 [] ''[1]'') 100"
  let ?s = "testState False []"
  have h1: "\<not> positive (getRemainingTTL (cache ?s)
                 (cacheKey (FetchOptions.source testOptions) (path testOptions)) (now ?w))"
    by (simp add: getRemainingTTL_def positive_def test_defs)
  have h2: "falsy (cachedRepo ?s)" "falsy (env ?w ''GITHUB_REPO'')"
    by (simp_all add: falsy_def test_defs)
  have h3: "\<not> (falsy (cachedOwner ?s) \<and> falsy (env ?w ''GITHUB_OWNER''))"
    by (simp add: falsy_def test_defs)
  have h4: "fetchResource ?w testOptions ?s
              = (fst (fetchResource ?w testOptions ?s), snd (fetchResource ?w testOptions ?s))"
    by simp
  have h5: "falsy (cachedBranch ?s)" "env ?w2 ''GITHUB_BRANCH'' = None"
    by (simp_all add: falsy_def test_defs)
  have q: "requests ?s = []" "now ?w = 100" by (simp_all add: test_defs)
  from missing_config_fails_fast [of ?s testOptions ?w "fst (fetchResource ?w testOptions ?s)"
         "snd (fetchResource ?w testOptions ?s)"]
       h1 h2 h3 h4 q
  have a: "fst (fetchResource ?w testOptions ?s)
             = Inl (Error ''Missing required environment variable: GITHUB_REPO'')
         \<and> requests (snd (fetchResource ?w testOptions ?s)) = []"
    by simp
  from missing_config_fails_fast [of ?s testOptions ?w2] h5
  have b: "fst (getBranch ?w2 ?s) = ''main''" by simp
  from a b h1 h2 h5 q show ?thesis by simp
qed

subsection \<open>C9: parse failures\<close>

text \<open>
  Claim C9 says that \<open>getManifest\<close> and \<open>getDailyDataset\<close> fail with a parse error when
  the fetched bytes are not valid JSON or do not have the expected shape. \<open>parseJson\<close>
  casts the parsed value to the expected type and checks nothing. Counterexample to
  C9: the origin answers 200 with the JSON text of an empty object for a day of rows,
  and with the JSON text of a one-element array for a manifest; neither is of the
  expected shape (an array of rows, a manifest object), and both calls succeed.
\<close>

theorem parse_shape_counterexample:
  "fst (getDailyDataset (testWorld (Response 200 [] ''{}'') 100) borrowing ''2025-09-29''
          (testState False []))
     = Inr \<lparr>data = JObject [], etag = None, lastModified = None,
             metrics = \<lparr>cacheHit = False, upstreamStatus = Some 200, servedStale = False,
                        source = ''borrowing:2025-09-29''\<rparr>\<rparr>
   \<and> fst (getManifest (testWorld (Response 200 [] ''[1]'') 100) lending (testState False []))
     = Inr \<lparr>manifest = JArray [JNumber ''1''], etag = None, updatedAt = None,
             metrics = \<lparr>cacheHit = False, upstreamStatus = Some 200, servedStale = False,
                        source = ''manifest:lending''\<rparr>\<rparr>"
  by (simp add: accessor_defs model_defs test_defs Let_def)

text \<open>
  Claim C9, amended: for every \<open>getManifest\<close> and \<open>getDailyDataset\<close> call, if the bytes
  that the fetch returns (fetched, served from the cache or served stale) are not valid
  JSON, the call fails with a parse error, a plain error with the message
  \<^verbatim>\<open>Failed to parse JSON from <path>: <reason>\<close>, which is neither the not-found nor the
  unavailable error; it is not masked by staleness and is fatal for that fetch. The
  shape of valid JSON is not checked: \<open>getDailyDataset\<close> returns any parsed value as the
  rows, and \<open>getManifest\<close> returns any parsed value other than \<^verbatim>\<open>null\<close> as the manifest.
\<close>

theorem parse_failure_is_fatal:
  "(fetchResource w (manifestOptions s d) s = (Inr res, s')
      \<and> JSON_parse w (buffer res) = Inl msg
    \<longrightarrow> getManifest w d s
          = (Inl (Error (''Failed to parse JSON from '' @ manifestPath d @ '': '' @ msg)), s'))
   \<and> (fetchResource w (dailyOptions s d date) s = (Inr res2, s2)
      \<and> JSON_parse w (buffer res2) = Inl msg2
    \<longrightarrow> getDailyDataset w d date s
          = (Inl (Error (''Failed to parse JSON from '' @ dailyPath d date @ '': '' @ msg2)), s2))
   \<and> (fetchResource w (manifestOptions s d) s = (Inr res, s')
      \<and> JSON_parse w (buffer res) = Inr v \<and> v \<noteq> JNull
    \<longrightarrow> getManifest w d s
          = (Inr \<lparr>manifest = v, etag = FetchResult.etag res,
                  updatedAt = (case v of JObject ms \<Rightarrow> map_of ms ''updated_at'' | _ \<Rightarrow> None),
                  metrics = FetchResult.metrics res\<rparr>, s'))
   \<and> (fetchResource w (dailyOptions s d date) s = (Inr res2, s2)
      \<and> JSON_parse w (buffer res2) = Inr v2
    \<longrightarrow> getDailyDataset w d date s
          = (Inr \<lparr>data = v2, etag = FetchResult.etag res2,
                  lastModified = FetchResult.lastModified res2,
                  metrics = FetchResult.metrics res2\<rparr>, s2))"
  by (cases v) (simp_all add: getManifest_def getDailyDataset_def parseJson_def updated_at_def
                   Let_def)

text \<open>Witness for C9 (amended): the text \<^verbatim>\<open>bad gateway\<close> is not JSON. It is fetched with
  status 200 for a manifest, and it is served stale for a day of rows after a 502; the
  two texts \<^verbatim>\<open>{}\<close> and \<^verbatim>\<open>[1]\<close> are JSON and are returned as they parse.\<close>

theorem parse_failure_is_fatal_witness:
  "fst (getManifest (testWorld (Response 200 [] ''bad gateway'') 100) lending (testState False []))
     = Inl (Error ''Failed to parse JSON from meta/lending_manifest.json: Unexpected token'')
   \<and> fst (fetchResource (testWorld (Response 502 [] []) 1300)
            (dailyOptions (testState False [(testKey, testSlot\<lparr>entry := testEntry\<lparr>body := ''bad gateway''\<rparr>\<rparr>)])
               borrowing ''2025-09-29'')
            (testState False [(testKey, testSlot\<lparr>entry := testEntry\<lparr>body := ''bad gateway''\<rparr>\<rparr>)]))
     = Inr \<lparr>buffer = ''bad gateway'', etag = Some ''etag-1'', lastModified = None,
             contentType = Some ''application/json'',
             metrics = \<lparr>cacheHit = True, upstreamStatus = Some 502, servedStale = True,
                        source = ''borrowing:2025-09-29''\<rparr>\<rparr>
   \<and> fst (getDailyDataset (testWorld (Response 502 [] []) 1300) borrowing ''2025-09-29''
            (testState False [(testKey, testSlot\<lparr>entry := testEntry\<lparr>body := ''bad gateway''\<rparr>\<rparr>)]))
     = Inl (Error ''Failed to parse JSON from data/borrowing/2025-09-29.json: Unexpected token'')
   \<and> fst (getManifest (testWorld (Response 200 [] ''{}'') 100) lending (testState False []))
     = Inr \<lparr>manifest = JObject [], etag = None, updatedAt = None,
             metrics = \<lparr>cacheHit = False, upstreamStatus = Some 200, servedStale = False,
                        source = ''manifest:lending''\<rparr>\<rparr>
   \<and> fst (getDailyDataset (testWorld (Response 200 [] ''[1]'') 100) borrowing ''2025-09-29''
            (testState False []))
     = Inr \<lparr>data = JArray [JNumber ''1''], etag = None, lastModified = None,
             metrics = \<lparr>cacheHit = False, upstreamStatus = Some 200, servedStale = False,
                        source = ''borrowing:2025-09-29''\<rparr>\<rparr>"
proof -
  let ?w1 = "testWorld (Response 200 [] ''bad gateway'') 100"
  let ?w2 = "testWorld (Response 502 [] []) 1300"
  let ?w3 = "testWorld (Response 200 [] ''{}'') 100"
  let ?w4 = "testWorld (Response 200 [] ''[1]'') 100"
  let ?s = "testState False []"
  let ?t = "testState False [(testKey, testSlot\<lparr>entry := testEntry\<lparr>body := ''bad gateway''\<rparr>\<rparr>)]"
  let ?m = "\<lambda>c. \<lparr>cacheHit = False, upstreamStatus = Some (200::int), servedStale = False,
                 source = c\<rparr>"
  let ?r1 = "\<lparr>buffer = ''bad gateway'', etag = None, lastModified = None, contentType = None,
              metrics = ?m ''manifest:lending''\<rparr>"
  let ?r2 = "\<lparr>buffer = ''bad gateway'', etag = Some ''etag-1'', lastModified = None,
              contentType = Some ''application/json'',
              metrics = \<lparr>cacheHit = True, upstreamStatus = Some 502, servedStale = True,
                         source = ''borrowing:2025-09-29''\<rparr>\<rparr>"
  let ?r3 = "\<lparr>buffer = ''{}'', etag = None, lastModified = None, contentType = None,
              metrics = ?m ''manifest:lending''\<rparr>"
  let ?r4 = "\<lparr>buffer = ''[1]'', etag = None, lastModified = None, contentType = None,
              metrics = ?m ''borrowing:2025-09-29''\<rparr>"
  have f1: "fetchResource ?w1 (manifestOptions ?s lending) ?s
              = (Inr ?r1, snd (fetchResource ?w1 (manifestOptions ?s lending) ?s))"
    by (simp add: prod_eq_iff accessor_defs model_defs test_defs Let_def)
  have p1: "JSON_parse ?w1 (buffer ?r1) = Inl ''Unexpected token''"
    by (simp add: test_defs)
  have f2: "fetchResource ?w2 (dailyOptions ?t borrowing ''2025-09-29'') ?t
              = (Inr ?r2, snd (fetchResource ?w2 (dailyOptions ?t borrowing ''2025-09-29'') ?t))"
    by (simp add: prod_eq_iff accessor_defs model_defs test_defs Let_def)
  have p2: "JSON_parse ?w2 (buffer ?r2) = Inl ''Unexpected token''"
    by (simp add: test_defs)
  have f3: "fetchResource ?w3 (manifestOptions ?s lending) ?s
              = (Inr ?r3, snd (fetchResource ?w3 (manifestOptions ?s lending) ?s))"
    by (simp add: prod_eq_iff accessor_defs model_defs test_defs Let_def)
  have p3: "JSON_parse ?w3 (buffer ?r3) = Inr (JObject [])" "JObject [] \<noteq> JNull"
    by (simp_all add: test_defs)
  have f4: "fetchResource ?w4 (dailyOptions ?s borrowing ''2025-09-29'') ?s
              = (Inr ?r4, snd (fetchResource ?w4 (dailyOptions ?s borrowing ''2025-09-29'') ?s))"
    by (simp add: prod_eq_iff accessor_defs model_defs test_defs Let_def)
  have p4: "JSON_parse ?w4 (buffer ?r4) = Inr (JArray [JNumber ''1''])"
    by (simp add: test_defs)
  have a: "fst (getManifest ?w1 lending ?s)
             = Inl (Error ''Failed to parse JSON from meta/lending_manifest.json: Unexpected token'')"
    using parse_failure_is_fatal [where w = ?w1 and s = ?s and d = lending and res = ?r1
            and msg = "''Unexpected token''"
            and s' = "snd (fetchResource ?w1 (manifestOptions ?s lending) ?s)"] f1 p1
    by (simp add: manifestPath_def datasetName_def)
  have b: "fst (getDailyDataset ?w2 borrowing ''2025-09-29'' ?t)
             = Inl (Error ''Failed to parse JSON from data/borrowing/2025-09-29.json: Unexpected token'')"
    using parse_failure_is_fatal [where w = ?w2 and s = ?t and d = borrowing
            and date = "''2025-09-29''" and ?res2.0 = ?r2 and ?msg2.0 = "''Unexpected token''"
            and ?s2.0 = "snd (fetchResource ?w2 (dailyOptions ?t borrowing ''2025-09-29'') ?t)"] f2 p2
    by (simp add: dailyPath_def datasetName_def)
  have c: "fst (getManifest ?w3 lending ?s)
             = Inr \<lparr>manifest = JObject [], etag = None, updatedAt = None,
                     metrics = ?m ''manifest:lending''\<rparr>"
    using parse_failure_is_fatal [where w = ?w3 and s = ?s and d = lending and res = ?r3
            and v = "JObject []"
            and s' = "snd (fetchResource ?w3 (manifestOptions ?s lending) ?s)"] f3 p3
    by simp
  have d: "fst (getDailyDataset ?w4 borrowing ''2025-09-29'' ?s)
             = Inr \<lparr>data = JArray [JNumber ''1''], etag = None, lastModified = None,
                     metrics = ?m ''borrowing:2025-09-29''\<rparr>"
    using parse_failure_is_fatal [where w = ?w4 and s = ?s and d = borrowing
            and date = "''2025-09-29''" and ?res2.0 = ?r4 and ?v2.0 = "JArray [JNumber ''1'']"
            and ?s2.0 = "snd (fetchResource ?w4 (dailyOptions ?s borrowing ''2025-09-29'') ?s)"]
          f4 p4
    by simp
  have g2: "fst (fetchResource ?w2 (dailyOptions ?t borrowing ''2025-09-29'') ?t) = Inr ?r2"
    using f2 by (metis fst_conv)
  from a b c d g2 show ?thesis by simp
qed

subsection \<open>C10: a 304 with nothing cached\<close>

text \<open>
  Claim C10 says that a 304 is treated as a fresh response when no cached entry exists
  for the key at the time it arrives, for instance after an eviction or a cache clear
  between the lookup and the response. The source decides by the local \<^verbatim>\<open>cached\<close> that
  the lookup returned, not by the store. Counterexample to C10: the stale entry of
  \<open>testSlots\<close> is removed from the store by the lookup that reads it, so that no entry
  exists for the key when the 304 arrives, and the fetch is a revalidation: it returns
  the old payload with \<open>cacheHit = True\<close> and stores the old payload again, not the
  empty body of the response. The same holds, for the part of \<open>fetchResource\<close> that
  runs once the response is there, when the cache has been cleared in between.
\<close>

theorem not_modified_counterexample:
  "map_of (slots (snd (cache_get (cache (testState False testSlots))
                         (cacheKey (FetchOptions.source testOptions) (path testOptions)) 1300)))
      (cacheKey (FetchOptions.source testOptions) (path testOptions)) = None
   \<and> fst (fetchResource (testWorld (Response 304 [] []) 1300) testOptions
            (testState False testSlots))
       = Inr \<lparr>buffer = ''[1]'', etag = Some ''etag-1'', lastModified = None,
               contentType = Some ''application/json'',
               metrics = \<lparr>cacheHit = True, upstreamStatus = Some 304, servedStale = False,
                          source = ''borrowing:2025-09-29''\<rparr>\<rparr>
   \<and> map_of (slots (cache (snd (fetchResource (testWorld (Response 304 [] []) 1300)
                                   testOptions (testState False testSlots)))))
        (cacheKey (FetchOptions.source testOptions) (path testOptions))
       = Some \<lparr>entry = \<lparr>body = ''[1]'', etag = Some ''etag-1'', lastModified = None,
                        contentType = Some ''application/json'', statusCode = Some 304\<rparr>,
               start = 1320, ttl = 1000\<rparr>
   \<and> slots (cache (invalidateCache (testState True testSlots))) = []
   \<and> fst (onResponse testOptions
            (cacheKey (FetchOptions.source testOptions) (path testOptions))
            (Some testEntry) 1320 304 [] [] (invalidateCache (testState True testSlots)))
       = Inr \<lparr>buffer = ''[1]'', etag = Some ''etag-1'', lastModified = None,
               contentType = Some ''application/json'',
               metrics = \<lparr>cacheHit = True, upstreamStatus = Some 304, servedStale = False,
                          source = ''borrowing:2025-09-29''\<rparr>\<rparr>"
  by (simp add: model_defs test_defs invalidateCache_def cache_clear_def Let_def)

text \<open>
  Claim C10, amended: if the origin answers the request of the fetch with status 304
  while the lookup at the start of the fetch found no entry for the key,
  \<open>fetchResource\<close> treats the response neither as a revalidation nor as an error: it
  takes the success branch, stores the body of the response as a new entry with the TTL
  of the call, and returns it with provenance \<open>cacheHit = False\<close>,
  \<open>servedStale = False\<close>, \<open>upstreamStatus = 304\<close>.
\<close>

theorem not_modified_without_entry:
  assumes "map_of (slots (cache s)) (cacheKey (FetchOptions.source opts) (path opts)) = None"
      and "fetchResource w opts s = (r, s')"
      and "requests s' = requests s @ [(u, h)]"
      and "origin w u h = Response 304 hdrs text"
  shows "r = Inr \<lparr>buffer = text,
                  etag = firstHeader (map_of hdrs ''etag''),
                  lastModified = firstHeader (map_of hdrs ''last-modified''),
                  contentType = firstHeader (map_of hdrs ''content-type''),
                  metrics = \<lparr>cacheHit = False, upstreamStatus = Some 304,
                             servedStale = False, source = FetchOptions.source opts\<rparr>\<rparr>
       \<and> map_of (slots (cache s')) (cacheKey (FetchOptions.source opts) (path opts))
           = Some \<lparr>entry = \<lparr>body = text,
                            etag = firstHeader (map_of hdrs ''etag''),
                            lastModified = firstHeader (map_of hdrs ''last-modified''),
                            contentType = firstHeader (map_of hdrs ''content-type''),
                            statusCode = Some 304\<rparr>,
                   start = replyAt w, ttl = ttlSeconds opts * 1000\<rparr>"
  using fetchResource_sent [OF assms(2,3)] assms(1,4)
  by (auto simp: onResponse_def cache_get_absent cache_set_def Let_def)

text \<open>Witness for C10 (amended): an empty store and an origin that answers 304 with an entity
  tag and an empty body.\<close>

theorem not_modified_without_entry_witness:
  "map_of (slots (cache (testState False [])))
      (cacheKey (FetchOptions.source testOptions) (path testOptions)) = None
   \<and> requests (snd (fetchResource (testWorld (Response 304 [(''etag'', Single ''etag-1'')] []) 100)
                       testOptions (testState False [])))
       = requests (testState False []) @ [(testUrl, [])]
   \<and> fst (fetchResource (testWorld (Response 304 [(''etag'', Single ''etag-1'')] []) 100)
             testOptions (testState False []))
       = Inr \<lparr>buffer = [], etag = Some ''etag-1'', lastModified = None, contentType = None,
               metrics = \<lparr>cacheHit = False, upstreamStatus = Some 304, servedStale = False,
                          source = ''borrowing:2025-09-29''\<rparr>\<rparr>
   \<and> map_of (slots (cache (snd (fetchResource
                 (testWorld (Response 304 [(''etag'', Single ''etag-1'')] []) 100)
                 testOptions (testState False [])))))
        (cacheKey (FetchOptions.source testOptions) (path testOptions))
       = Some \<lparr>entry = \<lparr>body = [], etag = Some ''etag-1'', lastModified = None,
                        contentType = None, statusCode = Some 304\<rparr>,
               start = 120, ttl = 1000\<rparr>"
proof -
  let ?w = "testWorld (Response 304 [(''etag'', Single ''etag-1'')] []) 100"
  let ?s = "testState False []"
  have h1: "map_of (slots (cache ?s))
              (cacheKey (FetchOptions.source testOptions) (path testOptions)) = None"
    by (simp add: test_defs)
  have h2: "fetchResource ?w testOptions ?s
              = (fst (fetchResource ?w testOptions ?s), snd (fetchResource ?w testOptions ?s))"
    by simp
  have h3: "requests (snd (fetchResource ?w testOptions ?s)) = requests ?s @ [(testUrl, [])]"
    by (simp add: model_defs test_defs Let_def)
  have h4: "origin ?w testUrl [] = Response 304 [(''etag'', Single ''etag-1'')] []"
    by (simp add: test_defs)
  from not_modified_without_entry [OF h1 h2 h3 h4] h1 h3 show ?thesis
    by (simp add: test_defs firstHeader_def)
qed

end
